theory Spec2Isabelle
  imports Complex_Main "HOL-Library.AList"
begin

section \<open>Values, errors and the environment of \<open>earthdaily/earthone/auth/auth.py\<close>\<close>

text \<open>
  Python values that flow through \<open>Auth\<close> are JSON values: credentials are strings or
  \<open>None\<close>, cache files and token payloads are whatever \<open>json.load\<close> returns. \<open>JNull\<close> is
  Python's \<open>None\<close>; a \<open>dict\<close> is an association list with distinct keys in insertion
  order. Numbers are exact (the rounding of Python's float addition is not modelled).

  A \<open>str\<close> is the list of the bytes that \<open>encode("utf-8", "surrogatepass")\<close> gives: its
  UTF-8 bytes, where a lone surrogate (\<open>U+D800\<close> to \<open>U+DFFF\<close>), which UTF-8 proper cannot
  encode, is the three bytes \<open>ED\<close>, \<open>A0..BF\<close>, \<open>80..BF\<close>. Such a \<open>str\<close> is what
  \<open>os.environ\<close> gives for a variable with a byte that is not UTF-8, and what \<open>json.load\<close>
  gives for an escape like \<open>\ud800\<close>.
\<close>

datatype json =
    JNull
  | JBool bool
  | JNum real
  | JStr string
  | JArr "json list"
  | JObj "(string \<times> json) list"

text \<open>Python's truth value of an object, as used by \<open>if x\<close>, \<open>x and y\<close>, \<open>not x\<close>.\<close>

fun truthy :: "json \<Rightarrow> bool" where
  "truthy JNull = False"
| "truthy (JBool b) = b"
| "truthy (JNum n) = (n \<noteq> 0)"
| "truthy (JStr s) = (s \<noteq> [])"
| "truthy (JArr xs) = (xs \<noteq> [])"
| "truthy (JObj kvs) = (kvs \<noteq> [])"

text \<open>
  The exceptions that the modelled code can raise. \<open>AuthError\<close> and \<open>OauthError\<close> are the
  two classes imported from \<open>earthdaily.earthone.exceptions\<close>; the others are Python's
  built-in exceptions and \<open>TransportError\<close> stands for whatever the HTTP session raises.
\<close>

datatype error =
    AuthError
  | OauthError
  | AttributeError
  | TypeError
  | KeyError
  | ValueError
  | UnicodeEncodeError
  | OSError
  | TransportError

text \<open>
  Modelled from the spec: the module \<open>earthdaily.earthone.exceptions\<close> is not among the
  sources. The spec names two error kinds, a credential error and a token-exchange error,
  and has the soft-degrade rule swallow a token-exchange error; so \<open>OauthError\<close> is a
  subclass of \<open>AuthError\<close>, and \<open>except AuthError\<close> catches exactly these two.
\<close>

fun is_AuthError :: "error \<Rightarrow> bool" where
  "is_AuthError AuthError = True"
| "is_AuthError OauthError = True"
| "is_AuthError _ = False"

text \<open>\<open>d.get(k)\<close> on a value: \<open>None\<close> for a missing key, \<open>AttributeError\<close> on a non-dict.\<close>

fun py_get :: "json \<Rightarrow> string \<Rightarrow> error + json" where
  "py_get (JObj kvs) k = Inr (case map_of kvs k of None \<Rightarrow> JNull | Some v \<Rightarrow> v)"
| "py_get _ k = Inl AttributeError"

text \<open>\<open>d.get(k, default)\<close>.\<close>

fun py_get_default :: "json \<Rightarrow> string \<Rightarrow> json \<Rightarrow> error + json" where
  "py_get_default (JObj kvs) k d = Inr (case map_of kvs k of None \<Rightarrow> d | Some v \<Rightarrow> v)"
| "py_get_default _ k d = Inl AttributeError"

text \<open>\<open>s.split(sep)\<close> for a one-character separator: never empty, one more piece than separators.\<close>

fun split_sep :: "char \<Rightarrow> string \<Rightarrow> string list" where
  "split_sep c [] = [[]]"
| "split_sep c (x # xs) =
     (if x = c then [] # split_sep c xs
      else (x # hd (split_sep c xs)) # tl (split_sep c xs))"

fun startswith :: "string \<Rightarrow> string \<Rightarrow> bool" where
  "startswith s [] = True"
| "startswith [] (p # ps) = False"
| "startswith (x # xs) (p # ps) = (x = p \<and> startswith xs ps)"

text \<open>\<open>sub in s\<close> for strings.\<close>

fun contains :: "string \<Rightarrow> string \<Rightarrow> bool" where
  "contains [] sub = (sub = [])"
| "contains (x # xs) sub = (startswith (x # xs) sub \<or> contains xs sub)"

subsection \<open>\<open>str.encode("utf-8")\<close>\<close>

text \<open>
  In the bytes of a \<open>str\<close> the byte \<open>ED\<close> only opens a three-byte sequence, and its
  second byte is \<open>A0\<close> or more exactly for a surrogate.
\<close>

fun has_surrogate :: "string \<Rightarrow> bool" where
  "has_surrogate (a # b # rest) =
     ((a = CHR 0xED \<and> (0xA0::nat) \<le> of_char b \<and> of_char b \<le> (0xBF::nat))
      \<or> has_surrogate (b # rest))"
| "has_surrogate _ = False"

text \<open>\<open>s.encode("utf-8")\<close>: the bytes, or \<open>UnicodeEncodeError\<close> for a lone surrogate.\<close>

definition utf8_encode :: "string \<Rightarrow> error + string" where
  "utf8_encode s = (if has_surrogate s then Inl UnicodeEncodeError else Inr s)"

subsection \<open>The token codec\<close>

text \<open>
  \<open>base64.urlsafe_b64decode\<close>, \<open>bytes.decode("utf-8")\<close> and \<open>json.loads\<close> belong to
  Python's standard library; they are parameters of the model, \<open>None\<close> where they raise.
\<close>

record codec =
  urlsafe_b64decode :: "string \<Rightarrow> string option"
  utf8_decode :: "string \<Rightarrow> string option"
  json_loads :: "string \<Rightarrow> json option"

definition base64url_decode :: "codec \<Rightarrow> string \<Rightarrow> string option" where
  "base64url_decode cd inp =
     (let rem = length inp mod 4
      in urlsafe_b64decode cd (if rem > 0 then inp @ replicate (4 - rem) CHR ''='' else inp))"

text \<open>The body of the \<open>try\<close> of \<open>_get_payload\<close> after the split: decode one segment.\<close>

definition decode_claims :: "codec \<Rightarrow> string \<Rightarrow> json option" where
  "decode_claims cd claims =
     (case base64url_decode cd claims of
        None \<Rightarrow> None
      | Some raw \<Rightarrow>
          (case utf8_decode cd raw of
             None \<Rightarrow> None
           | Some txt \<Rightarrow> json_loads cd txt))"

text \<open>
  \<open>Auth._get_payload\<close>. A \<open>str\<close> is first encoded, before the \<open>try\<close>: a failure there
  is raised as it is. Every exception inside the \<open>try\<close> becomes \<open>AuthError\<close>: the
  \<open>IndexError\<close> of \<open>split(b".")[1]\<close>, a failing decoder, and the \<open>AttributeError\<close> of
  \<open>split\<close> on a token that is no string.
\<close>

fun get_payload :: "codec \<Rightarrow> json \<Rightarrow> error + json" where
  "get_payload cd (JStr tok) =
     (case utf8_encode tok of
        Inl e \<Rightarrow> Inl e
      | Inr token \<Rightarrow>
          let parts = split_sep CHR ''.'' token
          in if length parts < 2 then Inl AuthError
             else (case decode_claims cd (parts ! 1) of
                     None \<Rightarrow> Inl AuthError
                   | Some p \<Rightarrow> Inr p))"
| "get_payload cd _ = Inl AuthError"

subsection \<open>The expiry test\<close>

text \<open>
  \<open>Auth._token_expired(payload, leeway)\<close> at clock reading \<open>now\<close> (seconds since the
  epoch). \<open>payload.get("exp")\<close> is \<open>None\<close> for a missing key and for a JSON \<open>null\<close>;
  a Python \<open>bool\<close> compares as 0 or 1; any other value makes \<open>>\<close> raise \<open>TypeError\<close>.
\<close>

definition token_expired :: "real \<Rightarrow> json \<Rightarrow> real \<Rightarrow> error + bool" where
  "token_expired now payload leeway =
     (case py_get payload ''exp'' of
        Inl e \<Rightarrow> Inl e
      | Inr JNull \<Rightarrow> Inr True
      | Inr (JNum ex) \<Rightarrow> Inr (now + leeway > ex)
      | Inr (JBool b) \<Rightarrow> Inr (now + leeway > (if b then 1 else 0))
      | Inr _ \<Rightarrow> Inl TypeError)"

section \<open>The world outside \<open>Auth\<close>\<close>

subsection \<open>Paths (\<open>posixpath\<close>)\<close>

definition basename :: "string \<Rightarrow> string" where
  "basename p = rev (takeWhile (\<lambda>c. c \<noteq> CHR ''/'') (rev p))"

definition dirname :: "string \<Rightarrow> string" where
  "dirname p =
     (let head = rev (dropWhile (\<lambda>c. c \<noteq> CHR ''/'') (rev p))
      in if head \<noteq> [] \<and> \<not> list_all (\<lambda>c. c = CHR ''/'') head
         then rev (dropWhile (\<lambda>c. c = CHR ''/'') (rev head))
         else head)"

definition path_join :: "string \<Rightarrow> string \<Rightarrow> string" where
  "path_join a b =
     (if startswith b ''/'' then b
      else if a = [] \<or> last a = CHR ''/'' then a @ b
      else a @ ''/'' @ b)"

subsection \<open>Files, warnings, requests and the clock\<close>

text \<open>
  A file either holds text that \<open>json.load\<close> parses to a value, or it does not
  (\<open>Garbage\<close>: empty, truncated, unreadable).
\<close>

datatype fcontent = Regular json | Garbage

datatype warning =
    ReadWarning string
  | SaveWarning
  | MismatchWarning
  | NoCredentialsWarning

record world =
  files :: "string \<Rightarrow> fcontent option"
  dirs :: "string set"
  warnings :: "warning list"
  requests :: "(string \<times> json) list list"
  now :: real

definition path_exists :: "world \<Rightarrow> string \<Rightarrow> bool" where
  "path_exists w p = (files w p \<noteq> None \<or> p \<in> dirs w)"

definition warn :: "warning \<Rightarrow> world \<Rightarrow> world" where
  "warn x w = w\<lparr>warnings := warnings w @ [x]\<rparr>"

text \<open>
  What the operating system, the HTTP session and the standard library do is not decided
  by \<open>auth.py\<close>; it is read from an environment that does not change.
\<close>

datatype mk_outcome = MkOk | MkExists | MkFails

datatype rename_outcome = RenameOk | RenameFileExists | RenameFails

record os_faults =
  makedirs_outcome :: mk_outcome
  chmod_dir_fails :: bool
  mkstemp_fails :: bool
  dump_fails :: bool
  chmod_fails :: bool
  rename_result :: rename_outcome
  remove_dest_fails :: bool
  rename_again_fails :: bool
  cleanup_remove_fails :: bool

text \<open>
  A POST either raises inside the session, or returns a response with its status code and
  what \<open>r.json()\<close> gives (\<open>None\<close> where it raises).
\<close>

datatype http_result = PostRaises error | Response nat "json option"

record env =
  environ :: "string \<Rightarrow> string option"
  home_dir :: string
  sha1_hexdigest :: "string \<Rightarrow> string"
  std_codec :: codec
  session_post :: "(string \<times> json) list \<Rightarrow> http_result"
  post_latency :: real
  faults :: os_faults
  mkstemp_suffix :: string

definition DEFAULT_TOKEN_INFO_DIR :: "env \<Rightarrow> string" where
  "DEFAULT_TOKEN_INFO_DIR E = path_join (home_dir E) ''.earthone''"

definition DEFAULT_TOKEN_INFO_PATH :: "env \<Rightarrow> string" where
  "DEFAULT_TOKEN_INFO_PATH E = path_join (DEFAULT_TOKEN_INFO_DIR E) ''token_info.json''"

definition JWT_TOKEN_PREFIX :: string where
  "JWT_TOKEN_PREFIX = ''jwt_token_''"

definition EARTHONE_CUSTOM_CLAIM_PREFIX :: string where
  "EARTHONE_CUSTOM_CLAIM_PREFIX = ''earthdaily__dl__''"

definition LEGACY_DELEGATION_CLIENT_IDS :: "json list" where
  "LEGACY_DELEGATION_CLIENT_IDS = [JStr ''ZOBAi4UROl5gKZIpxxlwOEfx8KpqXf2c'']"

definition KEY_CLIENT_ID :: string where "KEY_CLIENT_ID = ''client_id''"
definition KEY_CLIENT_SECRET :: string where "KEY_CLIENT_SECRET = ''client_secret''"
definition KEY_REFRESH_TOKEN :: string where "KEY_REFRESH_TOKEN = ''refresh_token''"
definition KEY_SCOPE :: string where "KEY_SCOPE = ''scope''"
definition KEY_GRANT_TYPE :: string where "KEY_GRANT_TYPE = ''grant_type''"
definition KEY_TARGET :: string where "KEY_TARGET = ''target''"
definition KEY_API_TYPE :: string where "KEY_API_TYPE = ''api_type''"
definition KEY_JWT_TOKEN :: string where "KEY_JWT_TOKEN = ''jwt_token''"
definition KEY_ALT_JWT_TOKEN :: string where "KEY_ALT_JWT_TOKEN = ''JWT_TOKEN''"
definition KEY_PAYLOAD :: string where "KEY_PAYLOAD = ''_payload''"
definition KEY_ALL_ACL_SUBJECTS :: string where "KEY_ALL_ACL_SUBJECTS = ''_aas''"
definition KEY_ALL_ACL_SUBJECTS_AS_SET :: string where "KEY_ALL_ACL_SUBJECTS_AS_SET = ''_aasas''"
definition KEY_ALL_OWNER_ACL_SUBJECTS :: string where "KEY_ALL_OWNER_ACL_SUBJECTS = ''_aoas''"
definition KEY_ALL_OWNER_ACL_SUBJECTS_AS_SET :: string where
  "KEY_ALL_OWNER_ACL_SUBJECTS_AS_SET = ''_aoasas''"

text \<open>
  Python's \<open>==\<close>: a \<open>bool\<close> is the number 0 or 1; otherwise values are equal when they are
  the same value (the coercion is not carried into lists and dicts).
\<close>

fun py_eq :: "json \<Rightarrow> json \<Rightarrow> bool" where
  "py_eq (JBool a) (JNum b) = ((if a then 1 else 0) = b)"
| "py_eq (JNum a) (JBool b) = (a = (if b then 1 else 0))"
| "py_eq x y = (x = y)"

text \<open>\<open>next((x for x in xs if x is not None), None)\<close>.\<close>

fun first_not_none :: "json list \<Rightarrow> json" where
  "first_not_none [] = JNull"
| "first_not_none (x # xs) = (if x \<noteq> JNull then x else first_not_none xs)"

fun opt_str :: "string option \<Rightarrow> json" where
  "opt_str None = JNull"
| "opt_str (Some s) = JStr s"

fun path_truthy :: "string option \<Rightarrow> bool" where
  "path_truthy None = False"
| "path_truthy (Some p) = (p \<noteq> [])"

text \<open>\<open>s.lower() == "true"\<close>.\<close>

definition lower_is_true :: "string \<Rightarrow> bool" where
  "lower_is_true s =
     (case s of
        [a, b, c, d] \<Rightarrow>
          (a = CHR ''t'' \<or> a = CHR ''T'') \<and> (b = CHR ''r'' \<or> b = CHR ''R'') \<and>
          (c = CHR ''u'' \<or> c = CHR ''U'') \<and> (d = CHR ''e'' \<or> d = CHR ''E'')
      | _ \<Rightarrow> False)"

section \<open>The token cache\<close>

text \<open>\<open>Auth._read_token_info(path, suppress_warning)\<close>.\<close>

definition read_token_info :: "env \<Rightarrow> world \<Rightarrow> string \<Rightarrow> bool \<Rightarrow> json \<times> world" where
  "read_token_info E w path suppress_warning =
     (if lower_is_true (case environ E ''EARTHONE_NO_JWT_CACHE'' of None \<Rightarrow> [] | Some v \<Rightarrow> v)
      then (JObj [], w)
      else (case files w path of
              Some (Regular j) \<Rightarrow> (j, w)
            | _ \<Rightarrow> (JObj [], if suppress_warning then w else warn (ReadWarning path) w)))"

text \<open>
  \<open>makedirs_if_not_exists(path)\<close>: \<open>EEXIST\<close> is swallowed, any other \<open>OSError\<close> of
  \<open>os.makedirs\<close> or \<open>os.chmod\<close> is raised again.
\<close>

definition makedirs_if_not_exists :: "env \<Rightarrow> world \<Rightarrow> string \<Rightarrow> error option \<times> world" where
  "makedirs_if_not_exists E w path =
     (if path_exists w path then (None, w)
      else (case makedirs_outcome (faults E) of
              MkFails \<Rightarrow> (Some OSError, w)
            | MkExists \<Rightarrow> (None, w\<lparr>dirs := insert path (dirs w)\<rparr>)
            | MkOk \<Rightarrow>
                (if chmod_dir_fails (faults E)
                 then (Some OSError, w\<lparr>dirs := insert path (dirs w)\<rparr>)
                 else (None, w\<lparr>dirs := insert path (dirs w)\<rparr>))))"

text \<open>
  The \<open>try\<close> block of \<open>Auth._write_token_info\<close>. The result says whether an exception
  reached the \<open>except\<close> clause, the value of \<open>suppress_warning\<close> and of \<open>temp_path\<close> at
  that moment, and the world. \<open>mkstemp\<close> gives a name that does not exist yet, or raises.
\<close>

definition write_attempt ::
  "env \<Rightarrow> world \<Rightarrow> string \<Rightarrow> (string \<times> json) list \<Rightarrow> bool \<times> bool \<times> string option \<times> world" where
  "write_attempt E w path token_info =
     (let token_info_directory = dirname path;
          temp_prefix = ''.'' @ basename path @ ''.'';
          temp = path_join token_info_directory (temp_prefix @ mkstemp_suffix E)
      in case makedirs_if_not_exists E w token_info_directory of
           (Some e, w1) \<Rightarrow> (True, False, None, w1)
         | (None, w1) \<Rightarrow>
             if mkstemp_fails (faults E) \<or> path_exists w1 temp then (True, False, None, w1)
             else
               let w2 = w1\<lparr>files := (files w1)(temp \<mapsto> Garbage)\<rparr>
               in if contains path JWT_TOKEN_PREFIX \<and> map_of token_info KEY_JWT_TOKEN = None
                  then (True, False, Some temp, w2)
                  else
                    let stripped =
                          (if contains path JWT_TOKEN_PREFIX
                           then (case map_of token_info KEY_JWT_TOKEN of
                                   Some t \<Rightarrow> [(KEY_JWT_TOKEN, t)]
                                 | None \<Rightarrow> [])
                           else token_info);
                        suppress_warning = contains path JWT_TOKEN_PREFIX
                    in if dump_fails (faults E) then (True, suppress_warning, Some temp, w2)
                       else
                         let w3 = w2\<lparr>files := (files w2)(temp \<mapsto> Regular (JObj stripped))\<rparr>
                         in if chmod_fails (faults E) then (True, suppress_warning, Some temp, w3)
                            else (case rename_result (faults E) of
                                    RenameFails \<Rightarrow> (True, suppress_warning, Some temp, w3)
                                  | RenameOk \<Rightarrow>
                                      (False, suppress_warning, Some temp,
                                       w3\<lparr>files := (files w3)(path \<mapsto> Regular (JObj stripped),
                                                               temp := None)\<rparr>)
                                  | RenameFileExists \<Rightarrow>
                                      if remove_dest_fails (faults E)
                                      then (True, suppress_warning, Some temp, w3)
                                      else
                                        let w4 = w3\<lparr>files := (files w3)(path := None)\<rparr>
                                        in if rename_again_fails (faults E)
                                           then (True, suppress_warning, Some temp, w4)
                                           else (False, suppress_warning, Some temp,
                                                 w4\<lparr>files := (files w4)
                                                      (path \<mapsto> Regular (JObj stripped),
                                                       temp := None)\<rparr>)))"

text \<open>
  \<open>Auth._write_token_info(path, token_info)\<close>: the \<open>try\<close> block, the \<open>except Exception\<close>
  clause that warns unless \<open>suppress_warning\<close>, and the \<open>finally\<close> clause that removes the
  temporary file; \<open>os.remove\<close> there is outside the \<open>except\<close>, so its failure is the one
  exception that reaches the caller.
\<close>

definition write_token_info ::
  "env \<Rightarrow> world \<Rightarrow> string \<Rightarrow> (string \<times> json) list \<Rightarrow> error option \<times> world" where
  "write_token_info E w path token_info =
     (case write_attempt E w path token_info of
        (failed, suppress_warning, temp_path, w1) \<Rightarrow>
          let w2 = (if failed \<and> \<not> suppress_warning then warn SaveWarning w1 else w1)
          in (case temp_path of
                None \<Rightarrow> (None, w2)
              | Some t \<Rightarrow>
                  if path_exists w2 t
                  then (if cleanup_remove_fails (faults E) then (Some OSError, w2)
                        else (None, w2\<lparr>files := (files w2)(t := None)\<rparr>))
                  else (None, w2)))"

section \<open>The \<open>Auth\<close> object\<close>

text \<open>
  The attributes of an \<open>Auth\<close> that the modelled methods read or write. \<open>priv_token\<close> is
  \<open>_token\<close>, \<open>priv_namespace\<close> is \<open>_namespace\<close>, and \<open>dict_cache\<close> holds the entries
  of \<open>__dict__\<close> under the cache keys. The session and the domain are left out: the
  session's answers come from the environment.
\<close>

record auth =
  client_id :: json
  client_secret :: json
  refresh_token :: json
  priv_token :: json
  scope :: json
  token_info_path :: "string option"
  leeway :: real
  priv_namespace :: json
  dict_cache :: "string \<Rightarrow> json option"

definition cache_keys :: "string list" where
  "cache_keys =
     [KEY_PAYLOAD, KEY_ALL_ACL_SUBJECTS, KEY_ALL_ACL_SUBJECTS_AS_SET,
      KEY_ALL_OWNER_ACL_SUBJECTS, KEY_ALL_OWNER_ACL_SUBJECTS_AS_SET]"

text \<open>\<open>Auth._clear_cache\<close>.\<close>

definition clear_cache :: "auth \<Rightarrow> auth" where
  "clear_cache a =
     a\<lparr>dict_cache := (\<lambda>k. if k \<in> set cache_keys then None else dict_cache a k),
       priv_namespace := JNull\<rparr>"

subsection \<open>Refreshing the token\<close>

fun join_strs :: "json list \<Rightarrow> string option" where
  "join_strs [] = Some []"
| "join_strs [JStr s] = Some s"
| "join_strs (JStr s # x # xs) =
     (case join_strs (x # xs) of None \<Rightarrow> None | Some r \<Rightarrow> Some (s @ '' '' @ r))"
| "join_strs (_ # xs) = None"

text \<open>\<open>" ".join(x)\<close>: over the items of a list, the characters of a string or the keys of a dict.\<close>

fun join_space :: "json \<Rightarrow> error + string" where
  "join_space (JArr xs) = (case join_strs xs of None \<Rightarrow> Inl TypeError | Some s \<Rightarrow> Inr s)"
| "join_space (JStr s) =
     (case join_strs (map (\<lambda>c. JStr [c]) s) of None \<Rightarrow> Inl TypeError | Some r \<Rightarrow> Inr r)"
| "join_space (JObj kvs) =
     (case join_strs (map (\<lambda>kv. JStr (fst kv)) kvs) of None \<Rightarrow> Inl TypeError | Some r \<Rightarrow> Inr r)"
| "join_space _ = Inl TypeError"

text \<open>The request body that \<open>_get_token\<close> builds.\<close>

definition token_params :: "auth \<Rightarrow> error + (string \<times> json) list" where
  "token_params a =
     (if list_ex (py_eq (client_id a)) LEGACY_DELEGATION_CLIENT_IDS then
        (case join_space
                (if scope a = JNull
                 then JArr [JStr ''openid'', JStr ''name'', JStr ''groups'', JStr ''org'',
                            JStr ''email'']
                 else scope a) of
           Inl e \<Rightarrow> Inl e
         | Inr sc \<Rightarrow>
             Inr [(KEY_SCOPE, JStr sc),
                  (KEY_CLIENT_ID, client_id a),
                  (KEY_GRANT_TYPE, JStr ''urn:ietf:params:oauth:grant-type:jwt-bearer''),
                  (KEY_TARGET, client_id a),
                  (KEY_API_TYPE, JStr ''app''),
                  (KEY_REFRESH_TOKEN, refresh_token a)])
      else if scope a \<noteq> JNull then
        (case join_space (scope a) of
           Inl e \<Rightarrow> Inl e
         | Inr sc \<Rightarrow>
             Inr [(KEY_CLIENT_ID, client_id a),
                  (KEY_GRANT_TYPE, JStr ''refresh_token''),
                  (KEY_REFRESH_TOKEN, refresh_token a),
                  (KEY_SCOPE, JStr sc)])
      else
        Inr [(KEY_CLIENT_ID, client_id a),
             (KEY_GRANT_TYPE, JStr ''refresh_token''),
             (KEY_REFRESH_TOKEN, refresh_token a)])"

text \<open>
  The end of \<open>_get_token\<close>, once \<open>_token\<close> is set and the caches are cleared: read the
  cache file, rewrite it when its credentials do not match, store the token, write it.
\<close>

definition save_token :: "env \<Rightarrow> auth \<Rightarrow> world \<Rightarrow> error option \<times> auth \<times> world" where
  "save_token E a w =
     (case token_info_path a of
        None \<Rightarrow> (None, a, w)
      | Some path \<Rightarrow>
          if path = [] then (None, a, w)
          else
            (case read_token_info E w path True of
               (JObj kvs, w1) \<Rightarrow>
                 let token_info =
                       (if \<not> py_eq (case map_of kvs KEY_CLIENT_ID of None \<Rightarrow> JNull | Some v \<Rightarrow> v)
                                   (client_id a)
                           \<or> \<not> py_eq (case map_of kvs KEY_CLIENT_SECRET of None \<Rightarrow> JNull | Some v \<Rightarrow> v)
                                     (client_secret a)
                        then [(KEY_CLIENT_ID, client_id a),
                              (KEY_CLIENT_SECRET, client_secret a),
                              (KEY_REFRESH_TOKEN, refresh_token a)]
                        else kvs);
                     token_info1 = AList.update KEY_JWT_TOKEN (priv_token a) token_info;
                     token_info2 = AList.delete KEY_ALT_JWT_TOKEN token_info1
                 in (case write_token_info E w1 path token_info2 of
                       (r, w2) \<Rightarrow> (r, a, w2))
             | (_, w1) \<Rightarrow> (Some AttributeError, a, w1)))"

text \<open>
  \<open>Auth._get_token\<close>. The result is the exception raised, if any, with the object and
  the world as they are at that moment. The POST is logged and takes \<open>post_latency\<close>
  seconds of the clock.
\<close>

definition get_token :: "env \<Rightarrow> auth \<Rightarrow> world \<Rightarrow> error option \<times> auth \<times> world" where
  "get_token E a w =
     (if client_id a = JNull then (Some AuthError, a, w)
      else if client_secret a = JNull \<and> refresh_token a = JNull then (Some AuthError, a, w)
      else
        (case token_params a of
           Inl e \<Rightarrow> (Some e, a, w)
         | Inr params \<Rightarrow>
             let w1 = w\<lparr>requests := requests w @ [params], now := now w + post_latency E\<rparr>
             in (case session_post E params of
                   PostRaises e \<Rightarrow> (Some e, a, w1)
                 | Response status body \<Rightarrow>
                     if status \<noteq> 200 then (Some OauthError, a, w1)
                     else
                       (case body of
                          None \<Rightarrow> (Some ValueError, a, w1)
                        | Some data \<Rightarrow>
                            (case (py_get data ''access_token'', py_get data ''id_token'') of
                               (Inr access_token, Inr id_token) \<Rightarrow>
                                 if access_token \<noteq> JNull
                                 then save_token E (clear_cache (a\<lparr>priv_token := access_token\<rparr>)) w1
                                 else if id_token \<noteq> JNull
                                 then save_token E (clear_cache (a\<lparr>priv_token := id_token\<rparr>)) w1
                                 else (Some OauthError, a, w1)
                             | _ \<Rightarrow> (Some AttributeError, a, w1))))))"

subsection \<open>The token accessor\<close>

text \<open>
  The property \<open>Auth.token\<close>: the value returned or the exception raised, with the object
  and the world afterwards. The second expiry test reads the clock after the refresh
  attempt.
\<close>

definition token :: "env \<Rightarrow> auth \<Rightarrow> world \<Rightarrow> (error + json) \<times> auth \<times> world" where
  "token E a w =
     (if priv_token a = JNull then
        (case get_token E a w of
           (Some e, a1, w1) \<Rightarrow> (Inl e, a1, w1)
         | (None, a1, w1) \<Rightarrow> (Inr (priv_token a1), a1, w1))
      else
        (case get_payload (std_codec E) (priv_token a) of
           Inl e \<Rightarrow> (Inl e, a, w)
         | Inr payload \<Rightarrow>
             (case token_expired (now w) payload (leeway a) of
                Inl e \<Rightarrow> (Inl e, a, w)
              | Inr False \<Rightarrow> (Inr (priv_token a), a, w)
              | Inr True \<Rightarrow>
                  (case get_token E a w of
                     (None, a1, w1) \<Rightarrow> (Inr (priv_token a1), a1, w1)
                   | (Some e, a1, w1) \<Rightarrow>
                       if is_AuthError e then
                         (case token_expired (now w1) payload 0 of
                            Inl e2 \<Rightarrow> (Inl e2, a1, w1)
                          | Inr True \<Rightarrow> (Inl e, a1, w1)
                          | Inr False \<Rightarrow> (Inr (priv_token a1), a1, w1))
                       else (Inl e, a1, w1)))))"

subsection \<open>The payload and the active groups\<close>

text \<open>
  One step of the loop that renames custom claims:
  \<open>payload[key[len(prefix):]] = payload.pop(key)\<close> for a key that starts with the prefix.
\<close>

definition doctor_key :: "(string \<times> json) list \<Rightarrow> string \<Rightarrow> (string \<times> json) list" where
  "doctor_key kvs key =
     (if startswith key EARTHONE_CUSTOM_CLAIM_PREFIX then
        (case map_of kvs key of
           None \<Rightarrow> kvs
         | Some v \<Rightarrow>
             AList.update (drop (length EARTHONE_CUSTOM_CLAIM_PREFIX) key) v (AList.delete key kvs))
      else kvs)"

fun doctor_claims :: "json \<Rightarrow> error + json" where
  "doctor_claims (JObj kvs) = Inr (JObj (foldl doctor_key kvs (map fst kvs)))"
| "doctor_claims _ = Inl AttributeError"

text \<open>The property \<open>Auth.payload\<close>, cached in \<open>__dict__\<close> under \<open>KEY_PAYLOAD\<close>.\<close>

definition payload :: "env \<Rightarrow> auth \<Rightarrow> world \<Rightarrow> (error + json) \<times> auth \<times> world" where
  "payload E a w =
     (case (case dict_cache a KEY_PAYLOAD of Some JNull \<Rightarrow> None | c \<Rightarrow> c) of
        Some p \<Rightarrow> (Inr p, a, w)
      | None \<Rightarrow>
          (case token E a w of
             (Inl e, a1, w1) \<Rightarrow> (Inl e, a1, w1)
           | (Inr t, a1, w1) \<Rightarrow>
               (case get_payload (std_codec E) t of
                  Inl e \<Rightarrow> (Inl e, a1, w1)
                | Inr p \<Rightarrow>
                    (case doctor_claims p of
                       Inl e \<Rightarrow> (Inl e, a1, w1)
                     | Inr p1 \<Rightarrow>
                         (Inr p1, a1\<lparr>dict_cache := (dict_cache a1)(KEY_PAYLOAD \<mapsto> p1)\<rparr>, w1)))))"

text \<open>
  The loop of \<open>Auth._active_groups\<close> over the groups, for a given \<open>org\<close>: the groups
  yielded, and the exception that ends the generator if a group has no \<open>split\<close>.
\<close>

fun active_filter :: "json \<Rightarrow> json list \<Rightarrow> json list \<times> error option" where
  "active_filter org [] = ([], None)"
| "active_filter org (JStr grp # rest) =
     (let parts = split_sep CHR '':'' grp;
          r = active_filter org rest
      in if length parts = 1 then (JStr grp # fst r, snd r)
         else if truthy org \<and> py_eq (JStr (parts ! 0)) org then (JStr grp # fst r, snd r)
         else r)"
| "active_filter org (_ # rest) = ([], Some AttributeError)"

text \<open>What a \<open>for\<close> loop iterates over.\<close>

fun py_iter :: "json \<Rightarrow> error + json list" where
  "py_iter (JArr xs) = Inr xs"
| "py_iter (JStr s) = Inr (map (\<lambda>c. JStr [c]) s)"
| "py_iter (JObj kvs) = Inr (map (\<lambda>kv. JStr (fst kv)) kvs)"
| "py_iter _ = Inl TypeError"

text \<open>\<open>_active_groups\<close> on a payload: the body of the generator once the payload is known.\<close>

definition active_groups_of :: "json \<Rightarrow> json list \<times> error option" where
  "active_groups_of p =
     (case py_get p ''org'' of
        Inl e \<Rightarrow> ([], Some e)
      | Inr org \<Rightarrow>
          (case py_get_default p ''groups'' (JArr []) of
             Inl e \<Rightarrow> ([], Some e)
           | Inr gs \<Rightarrow>
               (case py_iter gs of
                  Inl e \<Rightarrow> ([], Some e)
                | Inr xs \<Rightarrow> active_filter org xs)))"

text \<open>
  \<open>Auth._active_groups\<close>, consumed to its end: \<open>self.payload\<close> is read twice, the second
  time from the cache.
\<close>

definition active_groups ::
  "env \<Rightarrow> auth \<Rightarrow> world \<Rightarrow> (json list \<times> error option) \<times> auth \<times> world" where
  "active_groups E a w =
     (case payload E a w of
        (Inl e, a1, w1) \<Rightarrow> (([], Some e), a1, w1)
      | (Inr p, a1, w1) \<Rightarrow>
          (case py_get p ''org'' of
             Inl e \<Rightarrow> (([], Some e), a1, w1)
           | Inr org \<Rightarrow>
               (case payload E a1 w1 of
                  (Inl e, a2, w2) \<Rightarrow> (([], Some e), a2, w2)
                | (Inr p2, a2, w2) \<Rightarrow>
                    (case py_get_default p2 ''groups'' (JArr []) of
                       Inl e \<Rightarrow> (([], Some e), a2, w2)
                     | Inr gs \<Rightarrow>
                         (case py_iter gs of
                            Inl e \<Rightarrow> (([], Some e), a2, w2)
                          | Inr xs \<Rightarrow> (active_filter org xs, a2, w2))))))"

section \<open>Construction: \<open>Auth.__init__\<close>\<close>

text \<open>
  The arguments of the constructor. \<open>DefaultPath\<close> is the sentinel
  \<open>Auth._default_token_info_path\<close>; \<open>GivenPath None\<close> is an explicit \<open>None\<close>.
  \<open>domain\<close> and \<open>retries\<close> only configure the session and are left out.
\<close>

datatype path_arg = DefaultPath | GivenPath "string option"

record init_args =
  arg_scope :: json
  arg_leeway :: real
  arg_token_info_path :: path_arg
  arg_client_id :: "string option"
  arg_client_secret :: "string option"
  arg_jwt_token :: "string option"
  arg_refresh_token :: "string option"
  arg_suppress_warning :: bool

text \<open>The four values taken from the arguments and the environment, before any file is read.\<close>

definition supplied_client_id :: "env \<Rightarrow> init_args \<Rightarrow> json" where
  "supplied_client_id E args =
     first_not_none [opt_str (arg_client_id args),
                     opt_str (environ E ''EARTHONE_CLIENT_ID''),
                     opt_str (environ E ''CLIENT_ID'')]"

definition supplied_client_secret :: "env \<Rightarrow> init_args \<Rightarrow> json" where
  "supplied_client_secret E args =
     first_not_none [opt_str (arg_client_secret args),
                     opt_str (environ E ''EARTHONE_CLIENT_SECRET''),
                     opt_str (environ E ''CLIENT_SECRET'')]"

text \<open>With the step \<open>if not self.refresh_token: self.refresh_token = self.client_secret\<close>.\<close>

definition supplied_refresh_token :: "env \<Rightarrow> init_args \<Rightarrow> json" where
  "supplied_refresh_token E args =
     (let r = first_not_none [opt_str (arg_refresh_token args),
                              opt_str (environ E ''EARTHONE_REFRESH_TOKEN'')]
      in if \<not> truthy r then supplied_client_secret E args else r)"

definition supplied_token :: "env \<Rightarrow> init_args \<Rightarrow> json" where
  "supplied_token E args =
     first_not_none [opt_str (arg_jwt_token args), opt_str (environ E ''EARTHONE_TOKEN'')]"

text \<open>\<open>self.token_info_path\<close> after the first lines of the constructor.\<close>

definition initial_path :: "env \<Rightarrow> init_args \<Rightarrow> string option" where
  "initial_path E args =
     (case arg_token_info_path args of
        DefaultPath \<Rightarrow>
          Some (case environ E ''EARTHONE_TOKEN_INFO_PATH'' of
                  None \<Rightarrow> DEFAULT_TOKEN_INFO_PATH E
                | Some p \<Rightarrow> p)
      | GivenPath p \<Rightarrow> p)"

text \<open>The local variable \<open>token_info_path\<close> after the first lines of the constructor.\<close>

definition explicit_path :: "init_args \<Rightarrow> string option" where
  "explicit_path args =
     (case arg_token_info_path args of DefaultPath \<Rightarrow> None | GivenPath p \<Rightarrow> p)"

definition derived_path :: "env \<Rightarrow> string \<Rightarrow> string" where
  "derived_path E secret =
     path_join (DEFAULT_TOKEN_INFO_DIR E) (JWT_TOKEN_PREFIX @ sha1_hexdigest E secret @ ''.json'')"

text \<open>
  The branch for credentials given by argument or environment, with an explicit cache
  file: adopt the file's token when nothing else gave one and the credentials match.
\<close>

definition adopt_cached_token :: "auth \<Rightarrow> json \<Rightarrow> error + auth" where
  "adopt_cached_token self token_info =
     (if truthy (priv_token self) then Inr self
      else
        (case py_get token_info KEY_CLIENT_ID of
           Inl e \<Rightarrow> Inl e
         | Inr c \<Rightarrow>
             if \<not> py_eq (client_id self) c then Inr self
             else
               (case py_get token_info KEY_REFRESH_TOKEN of
                  Inl e \<Rightarrow> Inl e
                | Inr r \<Rightarrow>
                    if \<not> py_eq (refresh_token self) r then Inr self
                    else
                      (case py_get token_info KEY_JWT_TOKEN of
                         Inl e \<Rightarrow> Inl e
                       | Inr t \<Rightarrow> Inr (self\<lparr>priv_token := t\<rparr>)))))"

text \<open>The branch where everything comes from the cache file.\<close>

definition credentials_from_file :: "auth \<Rightarrow> json \<Rightarrow> error + auth" where
  "credentials_from_file self token_info =
     (case (py_get token_info KEY_CLIENT_ID, py_get token_info KEY_CLIENT_SECRET,
            py_get token_info KEY_REFRESH_TOKEN, py_get token_info KEY_ALT_JWT_TOKEN,
            py_get token_info KEY_JWT_TOKEN) of
        (Inr c, Inr s, Inr r, Inr alt, Inr t) \<Rightarrow>
          Inr (self\<lparr>client_id := c, client_secret := s, refresh_token := r,
                    priv_token := first_not_none [alt, t]\<rparr>)
      | _ \<Rightarrow> Inl AttributeError)"

text \<open>
  The first half of the constructor, up to the end of the \<open>if/elif\<close> over the sources:
  the object so far and the local \<open>token_info\<close>.
\<close>

definition resolve_credentials ::
  "env \<Rightarrow> world \<Rightarrow> init_args \<Rightarrow> (error + auth \<times> json) \<times> world" where
  "resolve_credentials E w args =
     (let self = \<lparr>client_id = supplied_client_id E args,
                  client_secret = supplied_client_secret E args,
                  refresh_token = supplied_refresh_token E args,
                  priv_token = supplied_token E args,
                  scope = JNull,
                  token_info_path = initial_path E args,
                  leeway = arg_leeway args,
                  priv_namespace = JNull,
                  dict_cache = (\<lambda>k. None)\<rparr>
      in if truthy (client_id self) \<or> truthy (refresh_token self) \<or> truthy (priv_token self) then
           (if path_truthy (explicit_path args) then
              (case token_info_path self of
                 None \<Rightarrow> (Inr (self, JObj []), w)
               | Some path \<Rightarrow>
                   if path_exists w path then
                     (case read_token_info E w path False of
                        (token_info, w1) \<Rightarrow>
                          (case adopt_cached_token self token_info of
                             Inl e \<Rightarrow> (Inl e, w1)
                           | Inr self1 \<Rightarrow> (Inr (self1, token_info), w1)))
                   else (Inr (self, JObj []), w))
            else if truthy (refresh_token self) \<and> path_truthy (token_info_path self) then
              (case refresh_token self of
                 JStr secret \<Rightarrow>
                   (case utf8_encode secret of
                      Inl e \<Rightarrow> (Inl e, w)
                    | Inr secret_bytes \<Rightarrow>
                        let path = derived_path E secret_bytes;
                            self1 = self\<lparr>token_info_path := Some path\<rparr>
                        in if truthy (priv_token self1) then
                             (case write_token_info E w path [(KEY_JWT_TOKEN, priv_token self1)] of
                                (Some e, w1) \<Rightarrow> (Inl e, w1)
                              | (None, w1) \<Rightarrow> (Inr (self1, JObj []), w1))
                           else
                             (case read_token_info E w path True of
                                (cached, w1) \<Rightarrow>
                                  (case py_get cached KEY_JWT_TOKEN of
                                     Inl e \<Rightarrow> (Inl e, w1)
                                   | Inr t \<Rightarrow>
                                       (Inr (self1\<lparr>priv_token := t\<rparr>, JObj []), w1))))
               | _ \<Rightarrow> (Inl AttributeError, w))
            else (Inr (self, JObj []), w))
         else
           (case token_info_path self of
              None \<Rightarrow> (Inr (self, JObj []), w)
            | Some path \<Rightarrow>
                if path = [] then (Inr (self, JObj []), w)
                else
                  (case read_token_info E w path (arg_suppress_warning args) of
                     (token_info, w1) \<Rightarrow>
                       (case credentials_from_file self token_info of
                          Inl e \<Rightarrow> (Inl e, w1)
                        | Inr self1 \<Rightarrow> (Inr (self1, token_info), w1)))))"

text \<open>
  The middle of the constructor: the mismatch warning, making secret and refresh token
  identical, and the scope.
\<close>

definition reconcile :: "init_args \<Rightarrow> auth \<Rightarrow> json \<Rightarrow> world \<Rightarrow> (error + auth) \<times> world" where
  "reconcile args self token_info w =
     (let w1 = (if truthy (client_secret self) \<and> truthy (refresh_token self)
                   \<and> \<not> py_eq (client_secret self) (refresh_token self)
                then warn MismatchWarning w else w);
          self1 = (if truthy (refresh_token self)
                   then self\<lparr>client_secret := refresh_token self\<rparr>
                   else if truthy (client_secret self)
                   then self\<lparr>refresh_token := client_secret self\<rparr>
                   else self)
      in case py_get token_info KEY_SCOPE of
           Inl e \<Rightarrow> (Inl e, w1)
         | Inr sc \<Rightarrow> (Inr (self1\<lparr>scope := first_not_none [arg_scope args, sc]\<rparr>), w1))"

text \<open>
  The check \<open># Verify that the token is valid; otherwise clear it\<close>: only \<open>AuthError\<close>
  is caught around \<open>_get_payload\<close>; the expiry test and \<open>payload.get("aud")\<close> are outside
  the \<open>try\<close>.
\<close>

definition validate_token :: "env \<Rightarrow> real \<Rightarrow> auth \<Rightarrow> error + auth" where
  "validate_token E clock self =
     (if truthy (priv_token self) then
        (case get_payload (std_codec E) (priv_token self) of
           Inl e \<Rightarrow> if is_AuthError e then Inr (self\<lparr>priv_token := JNull\<rparr>) else Inl e
         | Inr p \<Rightarrow>
             (case token_expired clock p 0 of
                Inl e \<Rightarrow> Inl e
              | Inr True \<Rightarrow> Inr (self\<lparr>priv_token := JNull\<rparr>)
              | Inr False \<Rightarrow>
                  if truthy (client_id self) then
                    (case py_get p ''aud'' of
                       Inl e \<Rightarrow> Inl e
                     | Inr aud \<Rightarrow>
                         if \<not> py_eq aud (client_id self)
                         then Inr (self\<lparr>priv_token := JNull\<rparr>)
                         else Inr self)
                  else Inr self))
      else Inr self)"

text \<open>\<open>Auth.__init__\<close>: the object built or the exception raised, and the world afterwards.\<close>

definition init :: "env \<Rightarrow> world \<Rightarrow> init_args \<Rightarrow> (error + auth) \<times> world" where
  "init E w args =
     (case resolve_credentials E w args of
        (Inl e, w1) \<Rightarrow> (Inl e, w1)
      | (Inr (self, token_info), w1) \<Rightarrow>
          (case reconcile args self token_info w1 of
             (Inl e, w2) \<Rightarrow> (Inl e, w2)
           | (Inr self1, w2) \<Rightarrow>
               (case validate_token E (now w2) self1 of
                  Inl e \<Rightarrow> (Inl e, w2)
                | Inr self2 \<Rightarrow>
                    (Inr self2,
                     if \<not> arg_suppress_warning args
                        \<and> \<not> (truthy (priv_token self2)
                              \<or> (truthy (client_id self2) \<and> truthy (refresh_token self2)))
                     then warn NoCredentialsWarning w2 else w2))))"

section \<open>Concrete inputs\<close>

text \<open>
  A codec for concrete runs: base64 text is kept as it is unless it holds \<open>!\<close>, every
  byte string is UTF-8, and the only JSON text is \<open>e30=\<close>, read as the empty object.
\<close>

definition demo_codec :: codec where
  "demo_codec = \<lparr>urlsafe_b64decode = (\<lambda>s. if CHR ''!'' \<in> set s then None else Some s),
                 utf8_decode = Some,
                 json_loads = (\<lambda>s. if s = ''e30='' then Some (JObj []) else None)\<rparr>"

text \<open>
  A second codec that reads three claim texts: \<open>exp10000\<close> as the claims
  \<open>{"exp": 10000, "aud": "cid"}\<close>, \<open>noexpclm\<close> as \<open>{"aud": "cid"}\<close> and
  \<open>otheraud\<close> as \<open>{"exp": 10000, "aud": "other"}\<close>.
\<close>

definition claims_codec :: codec where
  "claims_codec =
     \<lparr>urlsafe_b64decode = Some,
      utf8_decode = Some,
      json_loads =
        (\<lambda>s. if s = ''exp10000'' then Some (JObj [(''exp'', JNum 10000), (''aud'', JStr ''cid'')])
              else if s = ''noexpclm'' then Some (JObj [(''aud'', JStr ''cid'')])
              else if s = ''otheraud''
              then Some (JObj [(''exp'', JNum 10000), (''aud'', JStr ''other'')])
              else None)\<rparr>"

definition no_faults :: os_faults where
  "no_faults =
     \<lparr>makedirs_outcome = MkOk, chmod_dir_fails = False, mkstemp_fails = False,
      dump_fails = False, chmod_fails = False, rename_result = RenameOk,
      remove_dest_fails = False, rename_again_fails = False, cleanup_remove_fails = False\<rparr>"

text \<open>
  An environment with no variables set, whose token endpoint answers every POST with the
  given response, and whose SHA-1 is right on \<open>abc\<close>.
\<close>

definition demo_env :: "http_result \<Rightarrow> os_faults \<Rightarrow> env" where
  "demo_env answer fs =
     \<lparr>environ = (\<lambda>k. None),
      home_dir = ''/home/u'',
      sha1_hexdigest = (\<lambda>s. ''a9993e364706816aba3e25717850c26c9cd0d89d''),
      std_codec = claims_codec,
      session_post = (\<lambda>params. answer),
      post_latency = 1,
      faults = fs,
      mkstemp_suffix = ''tmp0''\<rparr>"

definition demo_world :: "real \<Rightarrow> world" where
  "demo_world t = \<lparr>files = (\<lambda>p. None), dirs = {}, warnings = [], requests = [], now = t\<rparr>"

definition demo_auth :: "json \<Rightarrow> auth" where
  "demo_auth tok =
     \<lparr>client_id = JStr ''cid'', client_secret = JStr ''secret'', refresh_token = JStr ''secret'',
      priv_token = tok, scope = JNull, token_info_path = None, leeway = 500,
      priv_namespace = JNull, dict_cache = (\<lambda>k. None)\<rparr>"

text \<open>
  Arguments for a construction from explicit credentials and a token, with
  \<open>token_info_path=None\<close>.
\<close>

definition demo_args :: "string option \<Rightarrow> init_args" where
  "demo_args tok =
     \<lparr>arg_scope = JNull, arg_leeway = 500, arg_token_info_path = GivenPath None,
      arg_client_id = Some ''cid'', arg_client_secret = None, arg_jwt_token = tok,
      arg_refresh_token = Some ''secret'', arg_suppress_warning = False\<rparr>"

text \<open>
  A construction with no argument at all, the demo environment with some variables set,
  and a world that holds one readable file.
\<close>

definition no_args :: init_args where
  "no_args =
     \<lparr>arg_scope = JNull, arg_leeway = 500, arg_token_info_path = DefaultPath,
      arg_client_id = None, arg_client_secret = None, arg_jwt_token = None,
      arg_refresh_token = None, arg_suppress_warning = False\<rparr>"

definition env_with :: "(string \<times> string) list \<Rightarrow> os_faults \<Rightarrow> env" where
  "env_with vars fs = (demo_env (Response 500 None) fs)\<lparr>environ := map_of vars\<rparr>"

definition world_with_file :: "string \<Rightarrow> json \<Rightarrow> world" where
  "world_with_file path content =
     \<lparr>files = (\<lambda>p. if p = path then Some (Regular content) else None),
      dirs = {}, warnings = [], requests = [], now = 0\<rparr>"

definition cached_credentials :: json where
  "cached_credentials =
     JObj [(''client_id'', JStr ''file-id''), (''client_secret'', JStr ''file-secret''),
           (''refresh_token'', JStr ''file-secret'')]"

section \<open>Properties of the codec and of the expiry test\<close>

lemma split_sep_nonempty: "split_sep c s \<noteq> []"
  by (induction s) auto

lemma split_sep_append:
  "c \<notin> set a \<Longrightarrow> split_sep c (a @ c # r) = a # split_sep c r"
  by (induction a) auto

lemma split_sep_no_sep: "c \<notin> set a \<Longrightarrow> split_sep c a = [a]"
  by (induction a) auto

lemma split_sep_length_lt2: "length (split_sep c s) < 2 \<longleftrightarrow> c \<notin> set s"
proof (induction s)
  case Nil
  then show ?case by simp
next
  case (Cons x xs)
  have "split_sep c xs \<noteq> []" by (rule split_sep_nonempty)
  then obtain p ps where "split_sep c xs = p # ps" by (cases "split_sep c xs") auto
  with Cons show ?case by auto
qed

lemma split_sep_hd: "hd (split_sep c s) = takeWhile (\<lambda>x. x \<noteq> c) s"
  by (induction s) auto

lemma split_sep_nth0: "split_sep c s ! 0 = takeWhile (\<lambda>x. x \<noteq> c) s"
  using split_sep_hd [of c s] split_sep_nonempty [of c s]
  by (simp add: hd_conv_nth)

lemma split_sep_length1: "length (split_sep c s) = Suc 0 \<longleftrightarrow> c \<notin> set s"
  using split_sep_length_lt2 [of c s] split_sep_nonempty [of c s]
  by (cases "split_sep c s") auto

text \<open>
  C3. For a payload whose \<open>exp\<close> is a number, the expiry test with leeway \<open>l\<close> at clock
  reading \<open>t\<close> is true exactly when \<open>t + l > exp\<close>: a token with \<open>exp = t + l - 1\<close>
  needs a refresh, one with \<open>exp = t + l + 1\<close> does not.
\<close>

theorem leeway_boundary:
  "py_get p ''exp'' = Inr (JNum ex) \<Longrightarrow>
     token_expired t p l = Inr (t + l > ex)
     \<and> (ex = t + l - 1 \<longrightarrow> token_expired t p l = Inr True)
     \<and> (ex = t + l + 1 \<longrightarrow> token_expired t p l = Inr False)"
  by (simp add: token_expired_def)

theorem leeway_boundary_witness:
  "py_get (JObj [(''exp'', JNum 1499)]) ''exp'' = Inr (JNum 1499)
   \<and> token_expired 1000 (JObj [(''exp'', JNum 1499)]) 500 = Inr True
   \<and> token_expired 1000 (JObj [(''exp'', JNum 1501)]) 500 = Inr False
   \<and> token_expired 1000 (JObj [(''exp'', JNum 1500)]) 500 = Inr False"
  using leeway_boundary [of "JObj [(''exp'', JNum 1499)]" 1499 1000 500]
        leeway_boundary [of "JObj [(''exp'', JNum 1501)]" 1501 1000 500]
        leeway_boundary [of "JObj [(''exp'', JNum 1500)]" 1500 1000 500]
  by simp


subsection \<open>The decoder\<close>

lemma get_payload_encodable:
  assumes "\<not> has_surrogate tok"
  shows "get_payload cd (JStr tok) =
           (if length (split_sep CHR ''.'' tok) < 2 then Inl AuthError
            else (case decode_claims cd (split_sep CHR ''.'' tok ! 1) of
                    None \<Rightarrow> Inl AuthError
                  | Some p \<Rightarrow> Inr p))"
  using assms by (simp add: utf8_encode_def Let_def del: split_sep.simps)

lemma get_payload_surrogate:
  "has_surrogate tok \<Longrightarrow> get_payload cd (JStr tok) = Inl UnicodeEncodeError"
  by (simp add: utf8_encode_def)

lemma get_payload_errors:
  "get_payload cd t = Inl e \<Longrightarrow> e = AuthError \<or> e = UnicodeEncodeError"
  by (cases t)
     (auto simp: utf8_encode_def Let_def split: option.splits if_splits simp del: split_sep.simps)

lemma get_payload_two_segments:
  assumes "\<not> has_surrogate (h @ ''.'' @ m)" and "CHR ''.'' \<notin> set h" and "CHR ''.'' \<notin> set m"
  shows "get_payload cd (JStr (h @ ''.'' @ m)) =
           (case decode_claims cd m of None \<Rightarrow> Inl AuthError | Some p \<Rightarrow> Inr p)"
proof -
  have "split_sep CHR ''.'' (h @ ''.'' @ m) = [h, m]"
    using assms(2,3) by (simp add: split_sep_append split_sep_no_sep)
  then show ?thesis
    using get_payload_encodable [OF assms(1), of cd] by simp
qed

lemma get_payload_more_segments:
  assumes "\<not> has_surrogate (h @ ''.'' @ m @ ''.'' @ sig)"
    and "CHR ''.'' \<notin> set h" and "CHR ''.'' \<notin> set m"
  shows "get_payload cd (JStr (h @ ''.'' @ m @ ''.'' @ sig)) =
           (case decode_claims cd m of None \<Rightarrow> Inl AuthError | Some p \<Rightarrow> Inr p)"
proof -
  have "split_sep CHR ''.'' (h @ ''.'' @ m @ ''.'' @ sig) = h # m # split_sep CHR ''.'' sig"
    using assms(2,3) by (simp add: split_sep_append)
  then show ?thesis
    using get_payload_encodable [OF assms(1), of cd] by simp
qed

lemma decode_claims_None_iff:
  "decode_claims cd seg = None \<longleftrightarrow>
     base64url_decode cd seg = None
     \<or> (\<exists>raw. base64url_decode cd seg = Some raw \<and> utf8_decode cd raw = None)
     \<or> (\<exists>raw txt. base64url_decode cd seg = Some raw \<and> utf8_decode cd raw = Some txt
                   \<and> json_loads cd txt = None)"
  by (auto simp: decode_claims_def split: option.splits)

text \<open>
  For a token without a lone surrogate the decoder raises \<open>AuthError\<close> exactly when
  there is no dot or the second segment fails one of the three decoding steps.
\<close>

lemma get_payload_raises_iff_encodable:
  assumes "\<not> has_surrogate tok"
  shows "get_payload cd (JStr tok) = Inl AuthError \<longleftrightarrow>
      CHR ''.'' \<notin> set tok
      \<or> base64url_decode cd (split_sep CHR ''.'' tok ! 1) = None
      \<or> (\<exists>raw. base64url_decode cd (split_sep CHR ''.'' tok ! 1) = Some raw
                \<and> utf8_decode cd raw = None)
      \<or> (\<exists>raw txt. base64url_decode cd (split_sep CHR ''.'' tok ! 1) = Some raw
                    \<and> utf8_decode cd raw = Some txt \<and> json_loads cd txt = None)"
  using decode_claims_None_iff [of cd "split_sep CHR ''.'' tok ! 1"]
        split_sep_length_lt2 [of "CHR ''.''" tok]
        get_payload_encodable [OF assms, of cd]
  by (auto split: option.splits)

text \<open>
  C10. The claim fails on a \<open>str\<close> that holds a lone surrogate, here \<open>U+DCFF\<close>:
  \<open>token.encode("utf-8")\<close> stands before the \<open>try\<close>, so \<open>_get_payload\<close> raises
  \<open>UnicodeEncodeError\<close> where the claim has the token-parse error (a token of one
  segment), and it raises on a token whose second segment decodes, because of its first
  segment. The same three-segment token with another first segment is accepted.
\<close>

theorem get_payload_surrogate_raises:
  "get_payload demo_codec (JStr [CHR 0xED, CHR 0xB3, CHR 0xBF]) = Inl UnicodeEncodeError
   \<and> get_payload demo_codec (JStr ([CHR 0xED, CHR 0xB3, CHR 0xBF] @ ''.e30.sig''))
       = Inl UnicodeEncodeError
   \<and> get_payload demo_codec (JStr (''hdr'' @ ''.e30.sig'')) = Inr (JObj [])"
proof -
  have a: "get_payload demo_codec (JStr [CHR 0xED, CHR 0xB3, CHR 0xBF]) = Inl UnicodeEncodeError"
    by (rule get_payload_surrogate) simp
  have b: "get_payload demo_codec (JStr ([CHR 0xED, CHR 0xB3, CHR 0xBF] @ ''.e30.sig''))
             = Inl UnicodeEncodeError"
    by (rule get_payload_surrogate) simp
  have d: "decode_claims demo_codec ''e30'' = Some (JObj [])"
    by (simp add: decode_claims_def base64url_decode_def demo_codec_def)
  have c: "get_payload demo_codec (JStr (''hdr'' @ ''.'' @ ''e30'' @ ''.'' @ ''sig'')) = Inr (JObj [])"
    using get_payload_more_segments [of "''hdr''" "''e30''" "''sig''" demo_codec] d by simp
  from a b c show ?thesis by simp
qed

subsection \<open>The active groups\<close>

lemma active_filter_strs:
  "active_filter org (map JStr names) =
     (map JStr (filter (\<lambda>g. CHR '':'' \<notin> set g
                          \<or> (truthy org \<and> JStr (takeWhile (\<lambda>c. c \<noteq> CHR '':'') g) = org)) names),
      None)"
proof (induction names)
  case Nil
  then show ?case by simp
next
  case (Cons g gs)
  have eq: "py_eq (JStr x) org = (JStr x = org)" for x by (cases org) auto
  show ?case
    using Cons by (simp add: Let_def split_sep_length1 split_sep_nth0 eq)
qed

lemma active_groups_cached:
  assumes "dict_cache a KEY_PAYLOAD = Some p" and "p \<noteq> JNull"
  shows "active_groups E a w = (active_groups_of p, a, w)"
proof -
  have "payload E a w = (Inr p, a, w)"
    using assms by (cases p) (simp_all add: payload_def)
  then show ?thesis
    by (simp add: active_groups_def active_groups_of_def split: sum.splits)
qed

text \<open>
  C7. For claims whose \<open>groups\<close> is a list of strings, the active-groups filter yields, in
  order, exactly the groups that have no colon, or whose text before the first colon equals
  an \<open>org\<close> claim that is present and not empty; \<open>_active_groups\<close> applies this filter to
  the cached payload.
\<close>

theorem active_groups_filter:
  assumes "map_of claims ''groups'' = Some (JArr (map JStr names))"
    and "org = (case map_of claims ''org'' of None \<Rightarrow> JNull | Some v \<Rightarrow> v)"
  shows "active_groups_of (JObj claims) =
           (map JStr (filter (\<lambda>g. CHR '':'' \<notin> set g
                                \<or> (truthy org \<and> JStr (takeWhile (\<lambda>c. c \<noteq> CHR '':'') g) = org))
                       names), None)
         \<and> (\<forall>g \<in> set names.
               (CHR '':'' \<notin> set g \<longrightarrow> JStr g \<in> set (fst (active_groups_of (JObj claims))))
               \<and> (CHR '':'' \<in> set g \<longrightarrow>
                    (JStr g \<in> set (fst (active_groups_of (JObj claims))) \<longleftrightarrow>
                       truthy org \<and> org = JStr (takeWhile (\<lambda>c. c \<noteq> CHR '':'') g))))
         \<and> (dict_cache a KEY_PAYLOAD = Some (JObj claims) \<longrightarrow>
               active_groups E a w = (active_groups_of (JObj claims), a, w))"
proof -
  have main: "active_groups_of (JObj claims) =
           (map JStr (filter (\<lambda>g. CHR '':'' \<notin> set g
                                \<or> (truthy org \<and> JStr (takeWhile (\<lambda>c. c \<noteq> CHR '':'') g) = org))
                       names), None)"
    using assms active_filter_strs [of org names]
    by (simp add: active_groups_of_def)
  have mem: "\<forall>g \<in> set names.
               (CHR '':'' \<notin> set g \<longrightarrow> JStr g \<in> set (fst (active_groups_of (JObj claims))))
               \<and> (CHR '':'' \<in> set g \<longrightarrow>
                    (JStr g \<in> set (fst (active_groups_of (JObj claims))) \<longleftrightarrow>
                       truthy org \<and> org = JStr (takeWhile (\<lambda>c. c \<noteq> CHR '':'') g)))"
    unfolding main by auto
  have cached: "dict_cache a KEY_PAYLOAD = Some (JObj claims) \<longrightarrow>
               active_groups E a w = (active_groups_of (JObj claims), a, w)"
    using active_groups_cached [of a "JObj claims" E w] by simp
  from main mem cached show ?thesis by blast
qed

theorem active_groups_filter_witness:
  "active_groups_of (JObj [(''org'', JStr ''acme''),
                           (''groups'', JArr [JStr ''acme:device-admin'', JStr ''global-role'',
                                              JStr ''other:ops''])])
     = ([JStr ''acme:device-admin'', JStr ''global-role''], None)
   \<and> active_groups_of (JObj [(''groups'', JArr [JStr ''acme:device-admin'', JStr ''global-role'',
                                                JStr ''other:ops''])])
     = ([JStr ''global-role''], None)"
  using active_groups_filter
          [of "[(''org'', JStr ''acme''),
                (''groups'', JArr [JStr ''acme:device-admin'', JStr ''global-role'',
                                   JStr ''other:ops''])]"
              "[''acme:device-admin'', ''global-role'', ''other:ops'']" "JStr ''acme''"]
        active_groups_filter
          [of "[(''groups'', JArr [JStr ''acme:device-admin'', JStr ''global-role'',
                                   JStr ''other:ops''])]"
              "[''acme:device-admin'', ''global-role'', ''other:ops'']" JNull]
  by simp


section \<open>Properties of the token accessor\<close>

lemma write_token_info_error: "write_token_info E w path ti = (Some e, w1) \<Longrightarrow> e = OSError"
  by (auto simp: write_token_info_def Let_def split: prod.splits option.splits if_splits)

lemma save_token_error: "save_token E a w = (Some e, a1, w1) \<Longrightarrow> \<not> is_AuthError e"
  by (auto simp: save_token_def Let_def split: option.splits if_splits prod.splits json.splits
           dest!: write_token_info_error)

lemma get_token_AuthError_unchanged:
  assumes "get_token E a w = (Some e, a1, w1)" and "is_AuthError e"
  shows "a1 = a"
  using assms
  by (auto simp: get_token_def Let_def
           split: if_splits sum.splits http_result.splits option.splits prod.splits
           dest: save_token_error)

lemma get_token_non_200:
  assumes "client_id a \<noteq> JNull" and "client_secret a \<noteq> JNull \<or> refresh_token a \<noteq> JNull"
    and "token_params a = Inr ps" and "session_post E ps = Response st body" and "st \<noteq> 200"
  shows "get_token E a w =
           (Some OauthError, a, w\<lparr>requests := requests w @ [ps], now := now w + post_latency E\<rparr>)"
  using assms by (auto simp: get_token_def Let_def)


lemma get_token_post_raises:
  assumes "client_id a \<noteq> JNull" and "client_secret a \<noteq> JNull \<or> refresh_token a \<noteq> JNull"
    and "token_params a = Inr ps" and "session_post E ps = PostRaises e"
  shows "get_token E a w =
           (Some e, a, w\<lparr>requests := requests w @ [ps], now := now w + post_latency E\<rparr>)"
  using assms by (auto simp: get_token_def Let_def)

lemma demo_payload:
  "get_payload claims_codec (JStr ''hdr.exp10000.sig'')
     = Inr (JObj [(''exp'', JNum 10000), (''aud'', JStr ''cid'')])"
  by (simp add: claims_codec_def decode_claims_def base64url_decode_def utf8_encode_def Let_def)

lemma demo_params:
  "token_params (demo_auth tok) =
     Inr [(KEY_CLIENT_ID, JStr ''cid''), (KEY_GRANT_TYPE, JStr ''refresh_token''),
          (KEY_REFRESH_TOKEN, JStr ''secret'')]"
  by (simp add: token_params_def demo_auth_def LEGACY_DELEGATION_CLIENT_IDS_def)

lemma demo_refresh_500:
  "get_token (demo_env (Response 500 None) no_faults) (demo_auth tok) (demo_world t) =
     (Some OauthError, demo_auth tok,
      (demo_world t)\<lparr>requests := requests (demo_world t) @
                        [[(KEY_CLIENT_ID, JStr ''cid''), (KEY_GRANT_TYPE, JStr ''refresh_token''),
                          (KEY_REFRESH_TOKEN, JStr ''secret'')]],
                     now := now (demo_world t)
                            + post_latency (demo_env (Response 500 None) no_faults)\<rparr>)"
proof (rule get_token_non_200 [where st = 500 and body = None, OF _ _ demo_params])
  show "client_id (demo_auth tok) \<noteq> JNull" by (simp add: demo_auth_def)
  show "client_secret (demo_auth tok) \<noteq> JNull \<or> refresh_token (demo_auth tok) \<noteq> JNull"
    by (simp add: demo_auth_def)
  show "session_post (demo_env (Response 500 None) no_faults)
          [(KEY_CLIENT_ID, JStr ''cid''), (KEY_GRANT_TYPE, JStr ''refresh_token''),
           (KEY_REFRESH_TOKEN, JStr ''secret'')] = Response 500 None"
    by (simp add: demo_env_def)
  show "(500::nat) \<noteq> 200" by simp
qed


lemma demo_refresh_transport:
  "get_token (demo_env (PostRaises TransportError) no_faults) (demo_auth tok) (demo_world t) =
     (Some TransportError, demo_auth tok,
      (demo_world t)\<lparr>requests := requests (demo_world t) @
                        [[(KEY_CLIENT_ID, JStr ''cid''), (KEY_GRANT_TYPE, JStr ''refresh_token''),
                          (KEY_REFRESH_TOKEN, JStr ''secret'')]],
                     now := now (demo_world t)
                            + post_latency (demo_env (PostRaises TransportError) no_faults)\<rparr>)"
proof (rule get_token_post_raises [OF _ _ demo_params])
  show "client_id (demo_auth tok) \<noteq> JNull" by (simp add: demo_auth_def)
  show "client_secret (demo_auth tok) \<noteq> JNull \<or> refresh_token (demo_auth tok) \<noteq> JNull"
    by (simp add: demo_auth_def)
  show "session_post (demo_env (PostRaises TransportError) no_faults)
          [(KEY_CLIENT_ID, JStr ''cid''), (KEY_GRANT_TYPE, JStr ''refresh_token''),
           (KEY_REFRESH_TOKEN, JStr ''secret'')] = PostRaises TransportError"
    by (simp add: demo_env_def)
qed

lemma demo_token_codec:
  "get_payload (std_codec (demo_env answer fs)) (priv_token (demo_auth (JStr ''hdr.exp10000.sig'')))
     = Inr (JObj [(''exp'', JNum 10000), (''aud'', JStr ''cid'')])"
  using demo_payload by (simp add: demo_env_def demo_auth_def)

lemma demo_exp:
  "py_get (JObj [(''exp'', JNum 10000), (''aud'', JStr ''cid'')]) ''exp'' = Inr (JNum 10000)"
  by simp

text \<open>
  C1, as the code has it. The token decodes, its \<open>exp\<close> is within the leeway of the clock
  at the access, and the refresh made by the accessor fails with the exception \<open>e\<close>. If
  \<open>e\<close> is an \<open>AuthError\<close> (an \<open>OauthError\<close> for a non-200 answer, or missing credentials),
  the object is unchanged; the accessor returns the stale token if the clock read after
  the failed attempt has not passed \<open>exp\<close>, and raises \<open>e\<close> if it has. An exception of
  any other class is raised whatever the clock says.
\<close>

theorem soft_degrade:
  assumes "get_payload (std_codec E) (priv_token a) = Inr p"
    and "py_get p ''exp'' = Inr (JNum ex)"
    and "now w + leeway a > ex"
    and "get_token E a w = (Some e, a1, w1)"
  shows "(is_AuthError e \<longrightarrow>
            a1 = a
            \<and> (\<not> now w1 > ex \<longrightarrow> token E a w = (Inr (priv_token a), a, w1))
            \<and> (now w1 > ex \<longrightarrow> token E a w = (Inl e, a, w1)))
         \<and> (\<not> is_AuthError e \<longrightarrow> token E a w = (Inl e, a1, w1))"
proof -
  have tok: "priv_token a \<noteq> JNull" using assms(1) by auto
  have first: "token_expired (now w) p (leeway a) = Inr True"
    using assms(2,3) by (simp add: token_expired_def)
  have second: "token_expired (now w1) p 0 = Inr (now w1 > ex)"
    using assms(2) by (simp add: token_expired_def)
  have caught: "a1 = a
            \<and> (\<not> now w1 > ex \<longrightarrow> token E a w = (Inr (priv_token a), a, w1))
            \<and> (now w1 > ex \<longrightarrow> token E a w = (Inl e, a, w1))" if e: "is_AuthError e"
  proof -
    have same: "a1 = a" using assms(4) e by (rule get_token_AuthError_unchanged)
    show ?thesis
      using same tok first second assms(1,4) e by (simp add: token_def)
  qed
  have other: "token E a w = (Inl e, a1, w1)" if "\<not> is_AuthError e"
    using tok first assms(1,4) that by (simp add: token_def)
  from caught other show ?thesis by blast
qed

theorem soft_degrade_witness:
  "fst (token (demo_env (Response 500 None) no_faults) (demo_auth (JStr ''hdr.exp10000.sig''))
          (demo_world 9600)) = Inr (JStr ''hdr.exp10000.sig'')
   \<and> fst (token (demo_env (Response 500 None) no_faults) (demo_auth (JStr ''hdr.exp10000.sig''))
            (demo_world 10001)) = Inl OauthError"
proof -
  let ?E = "demo_env (Response 500 None) no_faults"
  let ?a = "demo_auth (JStr ''hdr.exp10000.sig'')"
  have l1: "now (demo_world 9600) + leeway ?a > 10000"
    by (simp add: demo_world_def demo_auth_def)
  have l2: "now (demo_world 10001) + leeway ?a > 10000"
    by (simp add: demo_world_def demo_auth_def)
  have e: "is_AuthError OauthError" by simp
  have "token ?E ?a (demo_world 9600) =
          (Inr (priv_token ?a), ?a,
           (demo_world 9600)\<lparr>requests := requests (demo_world 9600) @
                        [[(KEY_CLIENT_ID, JStr ''cid''), (KEY_GRANT_TYPE, JStr ''refresh_token''),
                          (KEY_REFRESH_TOKEN, JStr ''secret'')]],
                     now := now (demo_world 9600) + post_latency ?E\<rparr>)"
    using soft_degrade [OF demo_token_codec demo_exp l1 demo_refresh_500] e
    by (simp add: demo_world_def demo_env_def)
  moreover have "token ?E ?a (demo_world 10001) =
          (Inl OauthError, ?a,
           (demo_world 10001)\<lparr>requests := requests (demo_world 10001) @
                        [[(KEY_CLIENT_ID, JStr ''cid''), (KEY_GRANT_TYPE, JStr ''refresh_token''),
                          (KEY_REFRESH_TOKEN, JStr ''secret'')]],
                     now := now (demo_world 10001) + post_latency ?E\<rparr>)"
    using soft_degrade [OF demo_token_codec demo_exp l2 demo_refresh_500] e
    by (simp add: demo_world_def demo_env_def)
  ultimately show ?thesis by (simp add: demo_auth_def)
qed

text \<open>
  C1 as stated fails twice on the spec's token (\<open>exp\<close> 10000, leeway 500). At clock 9600
  the refresh fails inside the HTTP session with an exception that is no \<open>AuthError\<close>: the
  accessor raises it, though the true expiry has not passed. At clock 9999.5 the true
  expiry has not passed at the access and the endpoint answers 500 one second later: the
  accessor raises the \<open>OauthError\<close>.
\<close>

theorem soft_degrade_counterexample:
  "fst (token (demo_env (PostRaises TransportError) no_faults)
          (demo_auth (JStr ''hdr.exp10000.sig'')) (demo_world 9600)) = Inl TransportError
   \<and> \<not> now (demo_world 9600) > 10000
   \<and> fst (token (demo_env (Response 500 None) no_faults)
            (demo_auth (JStr ''hdr.exp10000.sig'')) (demo_world 9999.5)) = Inl OauthError
   \<and> \<not> now (demo_world 9999.5) > 10000"
proof -
  have x1: "token_expired (now (demo_world 9600))
              (JObj [(''exp'', JNum 10000), (''aud'', JStr ''cid'')])
              (leeway (demo_auth (JStr ''hdr.exp10000.sig''))) = Inr True"
    by (simp add: token_expired_def demo_world_def demo_auth_def)
  have x2: "token_expired (now (demo_world 9999.5))
              (JObj [(''exp'', JNum 10000), (''aud'', JStr ''cid'')])
              (leeway (demo_auth (JStr ''hdr.exp10000.sig''))) = Inr True"
    by (simp add: token_expired_def demo_world_def demo_auth_def)
  have nn: "priv_token (demo_auth (JStr ''hdr.exp10000.sig'')) \<noteq> JNull"
    by (simp add: demo_auth_def)
  have a: "fst (token (demo_env (PostRaises TransportError) no_faults)
                  (demo_auth (JStr ''hdr.exp10000.sig'')) (demo_world 9600)) = Inl TransportError"
    using nn x1 by (simp add: token_def demo_token_codec demo_refresh_transport)
  have y2: "token_expired (now (demo_world 9999.5)
                             + post_latency (demo_env (Response 500 None) no_faults))
              (JObj [(''exp'', JNum 10000), (''aud'', JStr ''cid'')]) 0 = Inr True"
    by (simp add: token_expired_def demo_world_def demo_env_def)
  have b: "fst (token (demo_env (Response 500 None) no_faults)
                  (demo_auth (JStr ''hdr.exp10000.sig'')) (demo_world 9999.5)) = Inl OauthError"
    using nn x2 y2 by (simp add: token_def demo_token_codec demo_refresh_500)
  from a b show ?thesis by (simp add: demo_world_def)
qed

text \<open>
  C8. Idempotent access. While the token decodes and its expiry is not within the leeway,
  the accessor returns the token and leaves the object and the world as they were; so does
  a second access, at any later clock reading still outside the leeway: no request is
  posted, no file or directory is touched, no warning is given.
\<close>

theorem token_idempotent:
  assumes "get_payload (std_codec E) (priv_token a) = Inr p"
    and "token_expired (now w) p (leeway a) = Inr False"
  shows "token E a w = (Inr (priv_token a), a, w)
         \<and> (case token E a w of (r1, a1, w1) \<Rightarrow> token E a1 w1) = (Inr (priv_token a), a, w)
         \<and> (\<forall>t. token_expired t p (leeway a) = Inr False \<longrightarrow>
               token E a (w\<lparr>now := t\<rparr>) = (Inr (priv_token a), a, w\<lparr>now := t\<rparr>)
               \<and> requests (snd (snd (token E a (w\<lparr>now := t\<rparr>)))) = requests w
               \<and> files (snd (snd (token E a (w\<lparr>now := t\<rparr>)))) = files w
               \<and> dirs (snd (snd (token E a (w\<lparr>now := t\<rparr>)))) = dirs w
               \<and> warnings (snd (snd (token E a (w\<lparr>now := t\<rparr>)))) = warnings w)"
proof -
  have tok: "priv_token a \<noteq> JNull" using assms(1) by auto
  have one: "token E a v = (Inr (priv_token a), a, v)"
    if "token_expired (now v) p (leeway a) = Inr False" for v
    using tok assms(1) that by (simp add: token_def)
  have first: "token E a w = (Inr (priv_token a), a, w)" using assms(2) by (rule one)
  have later: "token E a (w\<lparr>now := t\<rparr>) = (Inr (priv_token a), a, w\<lparr>now := t\<rparr>)"
    if "token_expired t p (leeway a) = Inr False" for t
    using that by (intro one) simp
  show ?thesis using first later by simp
qed

theorem token_idempotent_witness:
  "token (demo_env (PostRaises TransportError) no_faults) (demo_auth (JStr ''hdr.exp10000.sig''))
     (demo_world 9000)
   = (Inr (JStr ''hdr.exp10000.sig''), demo_auth (JStr ''hdr.exp10000.sig''), demo_world 9000)
   \<and> requests (snd (snd (token (demo_env (PostRaises TransportError) no_faults)
                            (demo_auth (JStr ''hdr.exp10000.sig''))
                            ((demo_world 9000)\<lparr>now := 9400\<rparr>)))) = []"
proof -
  let ?E = "demo_env (PostRaises TransportError) no_faults"
  let ?a = "demo_auth (JStr ''hdr.exp10000.sig'')"
  let ?p = "JObj [(''exp'', JNum 10000), (''aud'', JStr ''cid'')]"
  have p: "get_payload (std_codec ?E) (priv_token ?a) = Inr ?p"
    using demo_payload by (simp add: demo_env_def demo_auth_def)
  have x: "token_expired (now (demo_world 9000)) ?p (leeway ?a) = Inr False"
    by (simp add: token_expired_def demo_world_def demo_auth_def)
  have y: "token_expired 9400 ?p (leeway ?a) = Inr False"
    by (simp add: token_expired_def demo_auth_def)
  show ?thesis
    using token_idempotent [OF p x] y by (simp add: demo_auth_def demo_world_def)
qed


section \<open>Properties of the construction-time validation\<close>

lemma token_expired_no_exp:
  "map_of claims ''exp'' = None \<Longrightarrow> token_expired t (JObj claims) l = Inr True"
  by (simp add: token_expired_def)

lemma init_validate:
  assumes "resolve_credentials E w args = (Inr (self, ti), wa)"
    and "reconcile args self ti wa = (Inr self1, wb)"
    and "validate_token E (now wb) self1 = Inr self2"
  shows "\<exists>wc. init E w args = (Inr self2, wc)"
  using assms by (simp add: init_def)

lemma init_validate_raises:
  assumes "resolve_credentials E w args = (Inr (self, ti), wa)"
    and "reconcile args self ti wa = (Inr self1, wb)"
    and "validate_token E (now wb) self1 = Inl e"
  shows "init E w args = (Inl e, wb)"
  using assms by (simp add: init_def)

lemma token_absent:
  "priv_token a = JNull \<Longrightarrow>
     token E a w = (case get_token E a w of
                      (Some e, a1, w1) \<Rightarrow> (Inl e, a1, w1)
                    | (None, a1, w1) \<Rightarrow> (Inr (priv_token a1), a1, w1))"
  by (simp add: token_def)

text \<open>
  What the validation does discard: a token that raises \<open>AuthError\<close> in the decoder,
  one that is expired at leeway 0, and one whose \<open>aud\<close> differs from a client id.
\<close>

lemma validate_token_discards:
  assumes "truthy (priv_token self)"
  shows "get_payload (std_codec E) (priv_token self) = Inl AuthError \<Longrightarrow>
           validate_token E t0 self = Inr (self\<lparr>priv_token := JNull\<rparr>)"
    and "get_payload (std_codec E) (priv_token self) = Inr p \<Longrightarrow>
           token_expired t0 p 0 = Inr True \<Longrightarrow>
           validate_token E t0 self = Inr (self\<lparr>priv_token := JNull\<rparr>)"
    and "get_payload (std_codec E) (priv_token self) = Inr p \<Longrightarrow>
           token_expired t0 p 0 = Inr False \<Longrightarrow> truthy (client_id self) \<Longrightarrow>
           py_get p ''aud'' = Inr aud \<Longrightarrow> \<not> py_eq aud (client_id self) \<Longrightarrow>
           validate_token E t0 self = Inr (self\<lparr>priv_token := JNull\<rparr>)"
  using assms by (simp_all add: validate_token_def)

lemma validate_token_raises:
  assumes "truthy (priv_token self)"
    and "get_payload (std_codec E) (priv_token self) = Inl e" and "\<not> is_AuthError e"
  shows "validate_token E t0 self = Inl e"
  using assms by (simp add: validate_token_def)

lemma demo_resolve:
  "resolve_credentials (demo_env answer fs) w (demo_args tok) =
     (Inr ((demo_auth (opt_str tok))\<lparr>client_secret := JNull\<rparr>, JObj []), w)"
  by (simp add: resolve_credentials_def demo_env_def demo_args_def demo_auth_def
        supplied_client_id_def supplied_client_secret_def supplied_refresh_token_def
        supplied_token_def initial_path_def explicit_path_def Let_def)

lemma demo_reconcile:
  "reconcile (demo_args tok) ((demo_auth t)\<lparr>client_secret := JNull\<rparr>) (JObj []) w =
     (Inr (demo_auth t), w)"
  by (simp add: reconcile_def demo_args_def demo_auth_def KEY_SCOPE_def)

lemma demo_payload_noexp:
  "get_payload claims_codec (JStr ''hdr.noexpclm.sig'') = Inr (JObj [(''aud'', JStr ''cid'')])"
  by (simp add: claims_codec_def decode_claims_def base64url_decode_def utf8_encode_def Let_def)

text \<open>
  C9. For claims without \<open>exp\<close> the expiry test is true at every clock reading and every
  leeway. A token with such claims is discarded by the validation of the constructor; and
  the accessor, whether the token was discarded or is still held, returns only what a
  refresh gives and raises what the refresh raises.
\<close>

theorem missing_exp_never_served:
  assumes "map_of claims ''exp'' = None"
  shows "(\<forall>t l. token_expired t (JObj claims) l = Inr True)
         \<and> (truthy (priv_token self) \<and> get_payload (std_codec E) (priv_token self) = Inr (JObj claims)
              \<longrightarrow> validate_token E t0 self = Inr (self\<lparr>priv_token := JNull\<rparr>))
         \<and> (resolve_credentials E w args = (Inr (pre, ti), wa)
              \<and> reconcile args pre ti wa = (Inr self, wb)
              \<and> truthy (priv_token self)
              \<and> get_payload (std_codec E) (priv_token self) = Inr (JObj claims)
              \<longrightarrow> (\<exists>wc. init E w args = (Inr (self\<lparr>priv_token := JNull\<rparr>), wc)))
         \<and> (priv_token a = JNull \<or> get_payload (std_codec E) (priv_token a) = Inr (JObj claims)
              \<longrightarrow> token E a v = (case get_token E a v of
                                    (Some e, a1, v1) \<Rightarrow> (Inl e, a1, v1)
                                  | (None, a1, v1) \<Rightarrow> (Inr (priv_token a1), a1, v1)))"
proof -
  have ex: "token_expired t (JObj claims) l = Inr True" for t l
    using assms by (rule token_expired_no_exp)
  have val: "validate_token E t self' = Inr (self'\<lparr>priv_token := JNull\<rparr>)"
    if "truthy (priv_token self')" "get_payload (std_codec E) (priv_token self') = Inr (JObj claims)"
    for self' t
    using that ex by (simp add: validate_token_def)
  have ini: "\<exists>wc. init E w args = (Inr (self\<lparr>priv_token := JNull\<rparr>), wc)"
    if "resolve_credentials E w args = (Inr (pre, ti), wa)"
       "reconcile args pre ti wa = (Inr self, wb)"
       "truthy (priv_token self)"
       "get_payload (std_codec E) (priv_token self) = Inr (JObj claims)"
    using that(1,2) val [OF that(3,4)] by (rule init_validate)
  have acc: "token E a v = (case get_token E a v of
                              (Some e, a1, v1) \<Rightarrow> (Inl e, a1, v1)
                            | (None, a1, v1) \<Rightarrow> (Inr (priv_token a1), a1, v1))"
    if "priv_token a = JNull \<or> get_payload (std_codec E) (priv_token a) = Inr (JObj claims)"
  proof (cases "priv_token a = JNull")
    case True
    then show ?thesis by (rule token_absent)
  next
    case False
    with that have p: "get_payload (std_codec E) (priv_token a) = Inr (JObj claims)" by simp
    show ?thesis
      using False p ex by (simp add: token_def split: prod.splits option.splits)
  qed
  show ?thesis using ex val ini acc by blast
qed

theorem missing_exp_never_served_witness:
  "(case fst (init (demo_env (Response 500 None) no_faults) (demo_world 0)
               (demo_args (Some ''hdr.noexpclm.sig''))) of
      Inl e \<Rightarrow> False
    | Inr a \<Rightarrow> priv_token a = JNull)
   \<and> fst (token (demo_env (Response 500 None) no_faults) (demo_auth (JStr ''hdr.noexpclm.sig''))
            (demo_world 0)) = Inl OauthError"
proof -
  let ?E = "demo_env (Response 500 None) no_faults"
  let ?claims = "[(''aud'', JStr ''cid'')]"
  let ?self = "demo_auth (JStr ''hdr.noexpclm.sig'')"
  have c: "map_of ?claims ''exp'' = None" by simp
  have r: "resolve_credentials ?E (demo_world 0) (demo_args (Some ''hdr.noexpclm.sig'')) =
             (Inr (?self\<lparr>client_secret := JNull\<rparr>, JObj []), demo_world 0)"
    using demo_resolve [of "Response 500 None" no_faults "demo_world 0" "Some ''hdr.noexpclm.sig''"]
    by simp
  have rc: "reconcile (demo_args (Some ''hdr.noexpclm.sig'')) (?self\<lparr>client_secret := JNull\<rparr>)
              (JObj []) (demo_world 0) = (Inr ?self, demo_world 0)"
    by (rule demo_reconcile)
  have t: "truthy (priv_token ?self)" by (simp add: demo_auth_def)
  have p: "get_payload (std_codec ?E) (priv_token ?self) = Inr (JObj ?claims)"
    using demo_payload_noexp by (simp add: demo_env_def demo_auth_def)
  note inst = missing_exp_never_served [OF c, where E = ?E and self = ?self
               and w = "demo_world 0" and args = "demo_args (Some ''hdr.noexpclm.sig'')"
               and pre = "?self\<lparr>client_secret := JNull\<rparr>" and ti = "JObj []"
               and wa = "demo_world 0" and wb = "demo_world 0"
               and a = ?self and v = "demo_world 0"]
  from inst r rc t p
  have "\<exists>wc. init ?E (demo_world 0) (demo_args (Some ''hdr.noexpclm.sig''))
              = (Inr (?self\<lparr>priv_token := JNull\<rparr>), wc)"
    by blast
  then have one: "case fst (init ?E (demo_world 0) (demo_args (Some ''hdr.noexpclm.sig''))) of
                    Inl e \<Rightarrow> False | Inr a \<Rightarrow> priv_token a = JNull"
    by auto
  from inst p
  have "token ?E ?self (demo_world 0) =
          (case get_token ?E ?self (demo_world 0) of
             (Some e, a1, v1) \<Rightarrow> (Inl e, a1, v1)
           | (None, a1, v1) \<Rightarrow> (Inr (priv_token a1), a1, v1))"
    by blast
  then have two: "fst (token ?E ?self (demo_world 0)) = Inl OauthError"
    by (simp add: demo_refresh_500)
  from one two show ?thesis by blast
qed

text \<open>
  C6. The validation does not discard every token that fails to decode. A token that is
  a \<open>str\<close> with a lone surrogate, here \<open>U+DCFF\<close>, given as \<open>jwt_token\<close> with a client id
  and a refresh token, makes \<open>_get_payload\<close> raise \<open>UnicodeEncodeError\<close> from the
  \<open>encode\<close> before its \<open>try\<close>; the constructor catches \<open>AuthError\<close> only and raises.
\<close>

theorem init_surrogate_token_raises:
  "init (demo_env (Response 500 None) no_faults) (demo_world 0)
        (demo_args (Some [CHR 0xED, CHR 0xB3, CHR 0xBF]))
     = (Inl UnicodeEncodeError, demo_world 0)"
proof -
  let ?E = "demo_env (Response 500 None) no_faults"
  let ?self = "demo_auth (JStr [CHR 0xED, CHR 0xB3, CHR 0xBF])"
  have r: "resolve_credentials ?E (demo_world 0) (demo_args (Some [CHR 0xED, CHR 0xB3, CHR 0xBF])) =
             (Inr (?self\<lparr>client_secret := JNull\<rparr>, JObj []), demo_world 0)"
    using demo_resolve [of "Response 500 None" no_faults "demo_world 0"
                           "Some [CHR 0xED, CHR 0xB3, CHR 0xBF]"]
    by simp
  have rc: "reconcile (demo_args (Some [CHR 0xED, CHR 0xB3, CHR 0xBF]))
              (?self\<lparr>client_secret := JNull\<rparr>) (JObj []) (demo_world 0)
              = (Inr ?self, demo_world 0)"
    by (rule demo_reconcile)
  have t: "truthy (priv_token ?self)" by (simp add: demo_auth_def)
  have g: "get_payload (std_codec ?E) (priv_token ?self) = Inl UnicodeEncodeError"
    by (simp add: demo_auth_def utf8_encode_def)
  have v: "validate_token ?E (now (demo_world 0)) ?self = Inl UnicodeEncodeError"
    using t g by (rule validate_token_raises) simp
  show ?thesis using r rc v by (rule init_validate_raises)
qed


section \<open>Properties of the credential resolution\<close>

lemma adopt_cached_token_client_id:
  "adopt_cached_token self ti = Inr s \<Longrightarrow>
     client_id s = client_id self \<and> token_info_path s = token_info_path self"
  by (auto simp: adopt_cached_token_def split: if_splits sum.splits)

lemma reconcile_keeps:
  "reconcile args self ti w = (Inr s, w1) \<Longrightarrow>
     client_id s = client_id self \<and> token_info_path s = token_info_path self"
  by (auto simp: reconcile_def Let_def split: if_splits sum.splits)

lemma validate_token_keeps:
  "validate_token E t self = Inr s \<Longrightarrow>
     client_id s = client_id self \<and> token_info_path s = token_info_path self"
  by (auto simp: validate_token_def split: if_splits sum.splits bool.splits)

lemma init_stages:
  assumes "init E w args = (Inr a, w')"
  obtains self ti wa self1 wb where
    "resolve_credentials E w args = (Inr (self, ti), wa)"
    "reconcile args self ti wa = (Inr self1, wb)"
    "validate_token E (now wb) self1 = Inr a"
  using assms by (auto simp: init_def split: prod.splits sum.splits)

lemma init_keeps:
  assumes "init E w args = (Inr a, w')"
    and "resolve_credentials E w args = (Inr (self, ti), wa)"
  shows "client_id a = client_id self \<and> token_info_path a = token_info_path self"
proof -
  from assms(1) obtain self' ti' wa' self1 wb where
    r: "resolve_credentials E w args = (Inr (self', ti'), wa')"
    and rc: "reconcile args self' ti' wa' = (Inr self1, wb)"
    and v: "validate_token E (now wb) self1 = Inr a"
    by (rule init_stages)
  from r assms(2) have "self' = self" by simp
  with rc v show ?thesis
    using reconcile_keeps [of args self' ti' wa' self1 wb] validate_token_keeps [of E "now wb" self1 a]
    by simp
qed

lemma init_resolves:
  assumes "init E w args = (Inr a, w')"
  obtains self ti wa where "resolve_credentials E w args = (Inr (self, ti), wa)"
  using assms by (rule init_stages)

lemma resolve_explicit_client_id:
  assumes "truthy (supplied_client_id E args) \<or> truthy (supplied_refresh_token E args)
           \<or> truthy (supplied_token E args)"
    and "resolve_credentials E w args = (Inr (self, ti), wa)"
  shows "client_id self = supplied_client_id E args"
  using assms
  by (auto simp: resolve_credentials_def Let_def write_token_info_def
           split: if_splits option.splits prod.splits sum.splits json.splits
           dest: adopt_cached_token_client_id)

text \<open>
  C2, as the code has it. Where the constructor returns: if the client id, the refresh
  token or secret, or the token taken from arguments and environment is non-empty, the
  resolved client id is the first value that is not \<open>None\<close> among the argument,
  \<open>EARTHONE_CLIENT_ID\<close> and \<open>CLIENT_ID\<close>, whatever the cache file holds. The client id
  of the cache file is used only when all three are \<open>None\<close> or empty; then it is the
  resolved client id.
\<close>

theorem client_id_precedence:
  assumes "init E w args = (Inr a, w')"
  shows "(truthy (supplied_client_id E args) \<or> truthy (supplied_refresh_token E args)
            \<or> truthy (supplied_token E args) \<longrightarrow>
          client_id a =
            (case arg_client_id args of
               Some c \<Rightarrow> JStr c
             | None \<Rightarrow>
                 (case environ E ''EARTHONE_CLIENT_ID'' of
                    Some c \<Rightarrow> JStr c
                  | None \<Rightarrow>
                      (case environ E ''CLIENT_ID'' of Some c \<Rightarrow> JStr c | None \<Rightarrow> JNull))))
         \<and> (client_id a \<noteq> supplied_client_id E args \<longrightarrow>
              \<not> truthy (supplied_client_id E args) \<and> \<not> truthy (supplied_refresh_token E args)
              \<and> \<not> truthy (supplied_token E args))
         \<and> (\<not> truthy (supplied_client_id E args) \<and> \<not> truthy (supplied_refresh_token E args)
              \<and> \<not> truthy (supplied_token E args)
              \<and> initial_path E args = Some path \<and> path \<noteq> []
              \<and> read_token_info E w path (arg_suppress_warning args) = (JObj kvs, wr) \<longrightarrow>
             client_id a = (case map_of kvs KEY_CLIENT_ID of None \<Rightarrow> JNull | Some v \<Rightarrow> v))"
proof -
  from assms obtain self ti wa where
    r: "resolve_credentials E w args = (Inr (self, ti), wa)"
    by (rule init_resolves)
  have keep: "client_id a = client_id self"
    using init_keeps [OF assms r] by simp
  have first: "supplied_client_id E args =
            (case arg_client_id args of
               Some c \<Rightarrow> JStr c
             | None \<Rightarrow>
                 (case environ E ''EARTHONE_CLIENT_ID'' of
                    Some c \<Rightarrow> JStr c
                  | None \<Rightarrow>
                      (case environ E ''CLIENT_ID'' of Some c \<Rightarrow> JStr c | None \<Rightarrow> JNull)))"
    by (simp add: supplied_client_id_def split: option.splits)
  have expl: "client_id a = supplied_client_id E args"
    if "truthy (supplied_client_id E args) \<or> truthy (supplied_refresh_token E args)
          \<or> truthy (supplied_token E args)"
    using resolve_explicit_client_id [OF that r] keep by simp
  have cached: "client_id a = (case map_of kvs KEY_CLIENT_ID of None \<Rightarrow> JNull | Some v \<Rightarrow> v)"
    if "\<not> truthy (supplied_client_id E args)" "\<not> truthy (supplied_refresh_token E args)"
       "\<not> truthy (supplied_token E args)" "initial_path E args = Some path" "path \<noteq> []"
       "read_token_info E w path (arg_suppress_warning args) = (JObj kvs, wr)"
  proof -
    have "client_id self = (case map_of kvs KEY_CLIENT_ID of None \<Rightarrow> JNull | Some v \<Rightarrow> v)"
      using r that
      by (auto simp: resolve_credentials_def Let_def credentials_from_file_def
               split: sum.splits)
    with keep show ?thesis by simp
  qed
  show ?thesis using expl cached first by metis
qed

lemma demo_default_path:
  "DEFAULT_TOKEN_INFO_PATH (env_with vars fs) = ''/home/u/.earthone/token_info.json''"
  by (simp add: DEFAULT_TOKEN_INFO_PATH_def DEFAULT_TOKEN_INFO_DIR_def path_join_def
        env_with_def demo_env_def)

lemma demo_environ: "environ (env_with vars fs) k = map_of vars k"
  by (simp add: env_with_def)

text \<open>
  C2 as stated fails when \<open>EARTHONE_CLIENT_ID\<close> is set to the empty string: the value
  \<open>legacy-id\<close> of \<open>CLIENT_ID\<close> is passed over, the empty client id counts as no
  credential, and the resolved client id is the \<open>file-id\<close> of the cache file, though the
  environment supplies a client id.
\<close>

theorem client_id_precedence_counterexample:
  "environ (env_with [(''EARTHONE_CLIENT_ID'', ''''), (''CLIENT_ID'', ''legacy-id'')] no_faults)
     ''CLIENT_ID'' = Some ''legacy-id''
   \<and> (case fst (init (env_with [(''EARTHONE_CLIENT_ID'', ''''), (''CLIENT_ID'', ''legacy-id'')]
                        no_faults)
                  (world_with_file ''/home/u/.earthone/token_info.json'' cached_credentials)
                  no_args) of
         Inl e \<Rightarrow> False
       | Inr a \<Rightarrow> client_id a = JStr ''file-id'')"
proof -
  let ?E = "env_with [(''EARTHONE_CLIENT_ID'', ''''), (''CLIENT_ID'', ''legacy-id'')] no_faults"
  let ?w = "world_with_file ''/home/u/.earthone/token_info.json'' cached_credentials"
  have e: "environ ?E ''CLIENT_ID'' = Some ''legacy-id''"
    by (simp add: demo_environ)
  have c: "supplied_client_id ?E no_args = JStr ''''"
    by (simp add: supplied_client_id_def demo_environ no_args_def)
  have s: "supplied_client_secret ?E no_args = JNull"
    by (simp add: supplied_client_secret_def demo_environ no_args_def)
  have rt: "supplied_refresh_token ?E no_args = JNull"
    by (simp add: supplied_refresh_token_def supplied_client_secret_def demo_environ no_args_def)
  have t: "supplied_token ?E no_args = JNull"
    by (simp add: supplied_token_def demo_environ no_args_def)
  have p: "initial_path ?E no_args = Some ''/home/u/.earthone/token_info.json''"
    by (simp add: initial_path_def demo_default_path no_args_def demo_environ)
  have rd: "read_token_info ?E ?w ''/home/u/.earthone/token_info.json'' False
              = (cached_credentials, ?w)"
    by (simp add: read_token_info_def lower_is_true_def world_with_file_def demo_environ)
  have sw: "arg_suppress_warning no_args = False" by (simp add: no_args_def)
  have r: "fst (resolve_credentials ?E ?w no_args) =
             Inr (\<lparr>client_id = JStr ''file-id'', client_secret = JStr ''file-secret'',
                    refresh_token = JStr ''file-secret'', priv_token = JNull, scope = JNull,
                    token_info_path = Some ''/home/u/.earthone/token_info.json'',
                    leeway = arg_leeway no_args, priv_namespace = JNull,
                    dict_cache = (\<lambda>k. None)\<rparr>, cached_credentials)"
    by (simp add: resolve_credentials_def c s rt t p rd sw Let_def)
       (simp add: credentials_from_file_def cached_credentials_def KEY_CLIENT_ID_def
          KEY_CLIENT_SECRET_def KEY_REFRESH_TOKEN_def KEY_ALT_JWT_TOKEN_def KEY_JWT_TOKEN_def)
  then obtain wa where r': "resolve_credentials ?E ?w no_args =
             (Inr (\<lparr>client_id = JStr ''file-id'', client_secret = JStr ''file-secret'',
                    refresh_token = JStr ''file-secret'', priv_token = JNull, scope = JNull,
                    token_info_path = Some ''/home/u/.earthone/token_info.json'',
                    leeway = arg_leeway no_args, priv_namespace = JNull,
                    dict_cache = (\<lambda>k. None)\<rparr>, cached_credentials), wa)"
    by (cases "resolve_credentials ?E ?w no_args") simp
  have "case fst (init ?E ?w no_args) of Inl e \<Rightarrow> False | Inr a \<Rightarrow> client_id a = JStr ''file-id''"
    unfolding init_def r'
    by (simp add: reconcile_def validate_token_def cached_credentials_def KEY_SCOPE_def Let_def)
  with e show ?thesis by simp
qed

theorem client_id_precedence_witness:
  "(case fst (init (env_with [(''EARTHONE_CLIENT_ID'', ''env-id''), (''CLIENT_ID'', ''legacy-id'')]
                     no_faults)
               (world_with_file ''/home/u/.earthone/token_info.json'' cached_credentials)
               (no_args\<lparr>arg_refresh_token := Some ''secret'',
                         arg_token_info_path := GivenPath None\<rparr>)) of
      Inl e \<Rightarrow> False
    | Inr a \<Rightarrow> client_id a = JStr ''env-id'')
   \<and> (case fst (init (env_with [] no_faults)
                  (world_with_file ''/home/u/.earthone/token_info.json'' cached_credentials)
                  no_args) of
         Inl e \<Rightarrow> False
       | Inr a \<Rightarrow> client_id a = JStr ''file-id'')"
proof -
  let ?E = "env_with [(''EARTHONE_CLIENT_ID'', ''env-id''), (''CLIENT_ID'', ''legacy-id'')] no_faults"
  let ?F = "env_with [] no_faults"
  let ?w = "world_with_file ''/home/u/.earthone/token_info.json'' cached_credentials"
  let ?args = "no_args\<lparr>arg_refresh_token := Some ''secret'', arg_token_info_path := GivenPath None\<rparr>"
  \<comment> \<open>credentials from the environment, the cache file ignored\<close>
  have c: "supplied_client_id ?E ?args = JStr ''env-id''"
    by (simp add: supplied_client_id_def demo_environ no_args_def)
  have s: "supplied_client_secret ?E ?args = JNull"
    by (simp add: supplied_client_secret_def demo_environ no_args_def)
  have rt: "supplied_refresh_token ?E ?args = JStr ''secret''"
    by (simp add: supplied_refresh_token_def demo_environ no_args_def)
  have t: "supplied_token ?E ?args = JNull"
    by (simp add: supplied_token_def demo_environ no_args_def)
  have p: "initial_path ?E ?args = None" "explicit_path ?args = None"
    by (simp_all add: initial_path_def explicit_path_def no_args_def)
  have r: "resolve_credentials ?E ?w ?args =
             (Inr (\<lparr>client_id = JStr ''env-id'', client_secret = JNull,
                    refresh_token = JStr ''secret'', priv_token = JNull, scope = JNull,
                    token_info_path = None, leeway = arg_leeway ?args, priv_namespace = JNull,
                    dict_cache = (\<lambda>k. None)\<rparr>, JObj []), ?w)"
    by (simp add: resolve_credentials_def c s rt t p Let_def)
  have "\<exists>a w'. init ?E ?w ?args = (Inr a, w')"
    unfolding init_def r
    by (simp add: reconcile_def validate_token_def KEY_SCOPE_def Let_def)
  then obtain a w' where i: "init ?E ?w ?args = (Inr a, w')" by blast
  have "client_id a = JStr ''env-id''"
    using client_id_precedence [OF i] c by (simp add: demo_environ no_args_def)
  with i have one: "case fst (init ?E ?w ?args) of
                      Inl e \<Rightarrow> False | Inr a \<Rightarrow> client_id a = JStr ''env-id''"
    by simp
  \<comment> \<open>nothing supplied: everything from the cache file\<close>
  have c0: "supplied_client_id ?F no_args = JNull"
    by (simp add: supplied_client_id_def demo_environ no_args_def)
  have s0: "supplied_client_secret ?F no_args = JNull"
    by (simp add: supplied_client_secret_def demo_environ no_args_def)
  have rt0: "supplied_refresh_token ?F no_args = JNull"
    by (simp add: supplied_refresh_token_def supplied_client_secret_def demo_environ no_args_def)
  have t0: "supplied_token ?F no_args = JNull"
    by (simp add: supplied_token_def demo_environ no_args_def)
  have p0: "initial_path ?F no_args = Some ''/home/u/.earthone/token_info.json''"
    by (simp add: initial_path_def demo_default_path no_args_def demo_environ)
  have sw: "arg_suppress_warning no_args = False" by (simp add: no_args_def)
  have rd: "read_token_info ?F ?w ''/home/u/.earthone/token_info.json'' False
              = (cached_credentials, ?w)"
    by (simp add: read_token_info_def lower_is_true_def world_with_file_def demo_environ)
  have r0: "resolve_credentials ?F ?w no_args =
             (Inr (\<lparr>client_id = JStr ''file-id'', client_secret = JStr ''file-secret'',
                    refresh_token = JStr ''file-secret'', priv_token = JNull, scope = JNull,
                    token_info_path = Some ''/home/u/.earthone/token_info.json'',
                    leeway = arg_leeway no_args, priv_namespace = JNull,
                    dict_cache = (\<lambda>k. None)\<rparr>, cached_credentials), ?w)"
    by (simp add: resolve_credentials_def c0 s0 rt0 t0 p0 rd sw Let_def)
       (simp add: credentials_from_file_def cached_credentials_def KEY_CLIENT_ID_def
          KEY_CLIENT_SECRET_def KEY_REFRESH_TOKEN_def KEY_ALT_JWT_TOKEN_def KEY_JWT_TOKEN_def)
  have "\<exists>a w'. init ?F ?w no_args = (Inr a, w')"
    unfolding init_def r0
    by (simp add: reconcile_def validate_token_def cached_credentials_def KEY_SCOPE_def Let_def)
  then obtain b v' where j: "init ?F ?w no_args = (Inr b, v')" by blast
  have rd': "read_token_info ?F ?w ''/home/u/.earthone/token_info.json''
               (arg_suppress_warning no_args)
             = (JObj [(''client_id'', JStr ''file-id''), (''client_secret'', JStr ''file-secret''),
                      (''refresh_token'', JStr ''file-secret'')], ?w)"
    using rd by (simp add: sw cached_credentials_def)
  have "client_id b = JStr ''file-id''"
    using client_id_precedence [OF j, where path = "''/home/u/.earthone/token_info.json''"
            and kvs = "[(''client_id'', JStr ''file-id''), (''client_secret'', JStr ''file-secret''),
                        (''refresh_token'', JStr ''file-secret'')]" and wr = ?w]
          c0 rt0 t0 p0 rd'
    by (simp add: KEY_CLIENT_ID_def)
  with j have two: "case fst (init ?F ?w no_args) of
                      Inl e \<Rightarrow> False | Inr a \<Rightarrow> client_id a = JStr ''file-id''"
    by simp
  from one two show ?thesis by blast
qed


section \<open>Properties of the cache write\<close>





lemma write_attempt_no_temp:
  assumes "write_attempt E w path ti = (failed, quiet, None, w1)"
  shows "failed"
proof -
  obtain r wm where m: "makedirs_if_not_exists E w (dirname path) = (r, wm)"
    by (cases "makedirs_if_not_exists E w (dirname path)")
  with assms show ?thesis
    by (auto simp: write_attempt_def Let_def
             split: option.splits if_splits rename_outcome.splits)
qed










end
